theory Spec2Isabelle
  imports Complex_Main "HOL-Library.Product_Lexorder"
begin

section \<open>Values handled by the keyword writer\<close>

text \<open>
  The numeric columns of the input tables are pandas \<open>float64\<close> columns. A cell is
  modelled as an exact rational, or as one of the special values that a division by zero or
  a missing cell produces. \<open>Fin 0\<close> is the positive zero and \<open>NegZero\<close> the negative one.
  Binary rounding, overflow and underflow are not modelled: a finite quotient other than
  zero is the exact one.
\<close>

datatype pfloat = Fin rat | NegZero | PosInf | NegInf | NaN

definition is_zero :: "pfloat \<Rightarrow> bool" where
  "is_zero x = (x = Fin 0 \<or> x = NegZero)"

definition is_inf :: "pfloat \<Rightarrow> bool" where
  "is_inf x = (x = PosInf \<or> x = NegInf)"

fun sign_bit :: "pfloat \<Rightarrow> bool" where
  "sign_bit (Fin a) = (a < 0)"
| "sign_bit NegZero = True"
| "sign_bit PosInf = False"
| "sign_bit NegInf = True"
| "sign_bit NaN = False"

text \<open>
  Series division \<open>a / b\<close> of two numeric columns. No exception on a zero divisor: the
  quotient is an infinity, or \<open>nan\<close> for zero by zero; the sign of a zero or infinite
  quotient is negative when the signs of the operands differ.
\<close>

definition fdiv :: "pfloat \<Rightarrow> pfloat \<Rightarrow> pfloat" where
  "fdiv a b =
     (if a = NaN \<or> b = NaN then NaN
      else if is_zero a \<and> is_zero b then NaN
      else if is_inf a \<and> is_inf b then NaN
      else if is_inf a \<or> is_zero b then (if sign_bit a \<noteq> sign_bit b then NegInf else PosInf)
      else if is_zero a \<or> is_inf b then (if sign_bit a \<noteq> sign_bit b then NegZero else Fin 0)
      else (case (a, b) of (Fin x, Fin y) \<Rightarrow> Fin (x / y) | _ \<Rightarrow> NaN))"

text \<open>The comparison \<open>x > 0\<close>; it is false on a zero of either sign and on a missing value.\<close>

fun gt0 :: "pfloat \<Rightarrow> bool" where
  "gt0 (Fin a) = (0 < a)"
| "gt0 NegZero = False"
| "gt0 PosInf = True"
| "gt0 NegInf = False"
| "gt0 NaN = False"

text \<open>
  A Python value as the writer functions receive it: \<open>None\<close>, a string, an integer or a
  float.
\<close>

datatype pyval = PNone | PStr string | PInt int | PFloat pfloat

subsection \<open>Decimal rendering\<close>

definition digit_char :: "nat \<Rightarrow> char" where
  "digit_char d = char_of (48 + d)"

fun str_nat :: "nat \<Rightarrow> string" where
  "str_nat n = (if n < 10 then [digit_char n] else str_nat (n div 10) @ [digit_char (n mod 10)])"

declare str_nat.simps [simp del]

definition str_int :: "int \<Rightarrow> string" where
  "str_int i = (if i < 0 then CHR ''-'' # str_nat (nat (- i)) else str_nat (nat i))"

text \<open>
  \<open>str(val)\<close>. The text of a float is left to the parameter \<open>fstr\<close> (Python prints the
  shortest decimal that reads back to the same double).
\<close>

fun py_str :: "(pfloat \<Rightarrow> string) \<Rightarrow> pyval \<Rightarrow> string" where
  "py_str fstr PNone = ''None''"
| "py_str fstr (PStr s) = s"
| "py_str fstr (PInt i) = str_int i"
| "py_str fstr (PFloat x) = fstr x"

text \<open>The format specification \<open>:02\<close> on a non-negative integer.\<close>

definition fmt02 :: "nat \<Rightarrow> string" where
  "fmt02 n = (let s = str_nat n in replicate (2 - length s) CHR ''0'' @ s)"

section \<open>kwriter: the keyword writer\<close>

datatype dest = Stdout | File

record sinks =
  console :: string
  outfile :: string

datatype error = KeyError | IllegalMonthError | ValueError | AssertionError "string list"

text \<open>\<open>_write_to_dest\<close>: \<open>print\<close> ends the text with a newline, \<open>writelines\<close> does not.\<close>

definition write_to_dest :: "string \<Rightarrow> dest \<Rightarrow> sinks \<Rightarrow> sinks" where
  "write_to_dest string d s =
     (case d of
        Stdout \<Rightarrow> s\<lparr>console := console s @ string @ ''\<newline>''\<rparr>
      | File \<Rightarrow> s\<lparr>outfile := outfile s @ string\<rparr>)"

text \<open>
  The loop body of \<open>specs_out\<close>:
  \<open>keyword += (str(val) if val is not None else '*') + ' '\<close>.
\<close>

definition specs_step :: "(pfloat \<Rightarrow> string) \<Rightarrow> string \<Rightarrow> pyval \<Rightarrow> string" where
  "specs_step fstr keyword val =
     keyword @ ((if val \<noteq> PNone then py_str fstr val else ''*'') @ '' '')"

text \<open>
  The loop body shared by the other single-line writers:
  \<open>keyword += '* ' if val is None else f'{str(val)} '\<close>.
\<close>

definition arg_step :: "(pfloat \<Rightarrow> string) \<Rightarrow> string \<Rightarrow> pyval \<Rightarrow> string" where
  "arg_step fstr keyword val =
     keyword @ (if val = PNone then ''* '' else py_str fstr val @ '' '')"

text \<open>
  A parameter with a default value takes an optional argument: \<open>None\<close> of the option type
  stands for an argument the caller leaves out, and the parameter is then bound to the
  default of the signature.
\<close>

type_synonym optarg = "pyval option"

definition arg :: "pyval \<Rightarrow> optarg \<Rightarrow> pyval" where
  "arg default_value given = (case given of None \<Rightarrow> default_value | Some v \<Rightarrow> v)"

text \<open>
  Each writer builds the text \<open>keyword\<close> and hands it to \<open>_write_to_dest\<close>. The list in
  each definition is \<open>locals()\<close> without \<open>dest\<close>, in parameter order, each parameter bound
  as the signature says.
\<close>

definition specs_out ::
  "(pfloat \<Rightarrow> string) \<Rightarrow> pyval \<Rightarrow> optarg \<Rightarrow>
   optarg \<Rightarrow> optarg \<Rightarrow> optarg \<Rightarrow> optarg \<Rightarrow>
   optarg \<Rightarrow> optarg \<Rightarrow> optarg \<Rightarrow> optarg \<Rightarrow>
   optarg \<Rightarrow> optarg \<Rightarrow> optarg \<Rightarrow> dest \<Rightarrow>
   sinks \<Rightarrow> sinks" where
  "specs_out fstr well_name pad coord_x coord_y ref_depth phase drainage_radius special_inflow
     eco_behavior crossflow_flag pres_table_num dens_calc_type fip_region dest =
     (let input_args = [well_name, arg PNone pad, arg PNone coord_x, arg PNone coord_y,
            arg PNone ref_depth, arg (PStr ''LIQ'') phase, arg PNone drainage_radius,
            arg PNone special_inflow, arg PNone eco_behavior, arg PNone crossflow_flag,
            arg PNone pres_table_num, arg PNone dens_calc_type, arg PNone fip_region];
          keyword = ''WELSPECS\<newline>'';
          keyword = foldl (specs_step fstr) keyword input_args;
          keyword = keyword @ ''/\<newline>'';
          keyword = keyword @ ''/\<newline>\<newline>''
      in write_to_dest keyword dest)"

text \<open>
  \<open>traj_out\<close>: a coordinate tuple is \<open>(X, Y, MD, Z)\<close> and is printed as \<open>X Y Z MD\<close>.
  The f-string formats each value with \<open>str\<close>.
\<close>

definition traj_line :: "(pfloat \<Rightarrow> string) \<Rightarrow> pyval \<times> pyval \<times> pyval \<times> pyval \<Rightarrow> string" where
  "traj_line fstr coord_point =
     (case coord_point of (coord_x, coord_y, md, coord_z) \<Rightarrow>
        py_str fstr coord_x @ '' '' @ py_str fstr coord_y @ '' '' @ py_str fstr coord_z @ '' ''
        @ py_str fstr md @ '' \<newline>'')"

definition traj_out ::
  "(pfloat \<Rightarrow> string) \<Rightarrow> pyval \<Rightarrow> (pyval \<times> pyval \<times> pyval \<times> pyval) list \<Rightarrow> dest \<Rightarrow> sinks \<Rightarrow> sinks" where
  "traj_out fstr well_name coordinates dest =
     (let keyword = ''WELLTRACK '' @ py_str fstr well_name @ ''\<newline>'';
          keyword = foldl (\<lambda>keyword coord_point. keyword @ traj_line fstr coord_point)
                      keyword coordinates;
          keyword = keyword @ ''/\<newline>\<newline>''
      in write_to_dest keyword dest)"

text \<open>
  A \<open>datetime.date\<close> has a year, a month and a day; a \<open>datetime.datetime\<close> has an hour, a
  minute and a second as well. Reading \<open>timestamp.hour\<close> of a date raises
  \<open>AttributeError\<close>, which \<open>dates_out\<close> catches.
\<close>

datatype timestamp =
  PyDate nat nat nat
| PyDatetime nat nat nat nat nat nat

fun ts_year :: "timestamp \<Rightarrow> nat" where
  "ts_year (PyDate y m d) = y"
| "ts_year (PyDatetime y m d hh mi ss) = y"

fun ts_month :: "timestamp \<Rightarrow> nat" where
  "ts_month (PyDate y m d) = m"
| "ts_month (PyDatetime y m d hh mi ss) = m"

fun ts_day :: "timestamp \<Rightarrow> nat" where
  "ts_day (PyDate y m d) = d"
| "ts_day (PyDatetime y m d hh mi ss) = d"

text \<open>The three attribute reads in the \<open>try\<close> block; \<open>None\<close> stands for the handler.\<close>

fun ts_time :: "timestamp \<Rightarrow> (nat \<times> nat \<times> nat) option" where
  "ts_time (PyDate y m d) = None"
| "ts_time (PyDatetime y m d hh mi ss) = Some (hh, mi, ss)"

definition month_codes :: "nat \<rightharpoonup> string" where
  "month_codes =
     [1 \<mapsto> ''JAN'', 2 \<mapsto> ''FEB'', 3 \<mapsto> ''MAR'', 4 \<mapsto> ''APR'', 5 \<mapsto> ''MAY'', 6 \<mapsto> ''JUN'',
      7 \<mapsto> ''JLY'', 8 \<mapsto> ''AUG'', 9 \<mapsto> ''SEP'', 10 \<mapsto> ''OCT'', 11 \<mapsto> ''NOV'', 12 \<mapsto> ''DEC'']"

definition hour_tail :: "timestamp \<Rightarrow> string" where
  "hour_tail timestamp =
     (case ts_time timestamp of
        None \<Rightarrow> ''''
      | Some (hour, minute, second) \<Rightarrow>
          fmt02 hour @ '':'' @ fmt02 minute @ '':'' @ fmt02 second @ '' '')"

definition dates_out :: "timestamp \<Rightarrow> dest \<Rightarrow> sinks \<Rightarrow> error + sinks" where
  "dates_out timestamp dest s =
     (let day = ts_day timestamp in
      case month_codes (ts_month timestamp) of
        None \<Rightarrow> Inl KeyError
      | Some month \<Rightarrow>
          (let year = ts_year timestamp;
               keyword = ''DATES\<newline>'';
               keyword = keyword @ fmt02 day @ '' '' @ month @ '' '' @ str_nat year @ '' ''
                           @ hour_tail timestamp @ ''/\<newline>'';
               keyword = keyword @ ''/\<newline>\<newline>''
           in Inr (write_to_dest keyword dest s)))"

definition wconprodh_out ::
  "(pfloat \<Rightarrow> string) \<Rightarrow> pyval \<Rightarrow> optarg \<Rightarrow>
   optarg \<Rightarrow> optarg \<Rightarrow> optarg \<Rightarrow> optarg \<Rightarrow>
   optarg \<Rightarrow> optarg \<Rightarrow> optarg \<Rightarrow> optarg \<Rightarrow>
   optarg \<Rightarrow> optarg \<Rightarrow> dest \<Rightarrow> sinks \<Rightarrow>
   sinks" where
  "wconprodh_out fstr well_name well_status well_control oil_rate_h water_rate_h gas_rate_h vfp_num alq thp_h
     bhp_h wet_gas_rate_h ngl_rate_h dest =
     (let initial_args = [well_name, arg (PStr ''SHUT'') well_status, arg (PStr ''LRAT'') well_control,
            arg PNone oil_rate_h, arg PNone water_rate_h, arg PNone gas_rate_h,
            arg PNone vfp_num, arg PNone alq, arg PNone thp_h, arg PNone bhp_h,
            arg PNone wet_gas_rate_h, arg PNone ngl_rate_h];
          keyword = ''WCONHIST\<newline>'';
          keyword = foldl (arg_step fstr) keyword initial_args;
          keyword = keyword @ ''/\<newline>'';
          keyword = keyword @ ''/\<newline>\<newline>''
      in write_to_dest keyword dest)"

definition wconinjh_out ::
  "(pfloat \<Rightarrow> string) \<Rightarrow> pyval \<Rightarrow> optarg \<Rightarrow>
   optarg \<Rightarrow> optarg \<Rightarrow> optarg \<Rightarrow> optarg \<Rightarrow>
   optarg \<Rightarrow> optarg \<Rightarrow> optarg \<Rightarrow> optarg \<Rightarrow>
   optarg \<Rightarrow> optarg \<Rightarrow> dest \<Rightarrow> sinks \<Rightarrow>
   sinks" where
  "wconinjh_out fstr well_name injected_fluid well_status inj_rate_h bhp_h thp_h vfp_num
     second_phase_concentration surf_oil_part surf_water_part surf_gas_part well_control
     dest =
     (let initial_args = [well_name, arg (PStr ''WATER'') injected_fluid, arg (PStr ''SHUT'') well_status,
            arg PNone inj_rate_h, arg PNone bhp_h, arg PNone thp_h, arg PNone vfp_num,
            arg PNone second_phase_concentration, arg PNone surf_oil_part,
            arg PNone surf_water_part, arg PNone surf_gas_part,
            arg (PStr ''RATE'') well_control];
          keyword = ''WCONINJH\<newline>'';
          keyword = foldl (arg_step fstr) keyword initial_args;
          keyword = keyword @ ''/\<newline>'';
          keyword = keyword @ ''/\<newline>\<newline>''
      in write_to_dest keyword dest)"

definition wefac_out ::
  "(pfloat \<Rightarrow> string) \<Rightarrow> pyval \<Rightarrow> optarg \<Rightarrow>
   optarg \<Rightarrow> dest \<Rightarrow> sinks \<Rightarrow> sinks" where
  "wefac_out fstr well_name efficiency_factor apply_to_network dest =
     (let initial_args = [well_name, arg (PInt 1) efficiency_factor,
            arg PNone apply_to_network];
          keyword = ''WEFAC\<newline>'';
          keyword = foldl (arg_step fstr) keyword initial_args;
          keyword = keyword @ ''/\<newline>'';
          keyword = keyword @ ''/\<newline>\<newline>''
      in write_to_dest keyword dest)"

definition perf_out ::
  "(pfloat \<Rightarrow> string) \<Rightarrow> pyval \<Rightarrow> optarg \<Rightarrow>
   optarg \<Rightarrow> optarg \<Rightarrow> optarg \<Rightarrow> optarg \<Rightarrow>
   optarg \<Rightarrow> optarg \<Rightarrow> optarg \<Rightarrow> optarg \<Rightarrow>
   optarg \<Rightarrow> optarg \<Rightarrow> optarg \<Rightarrow> optarg \<Rightarrow>
   dest \<Rightarrow> sinks \<Rightarrow> sinks" where
  "perf_out fstr well_name branch_num lower_depth upper_depth depth_type status sat_num trans_factor
     well_diam effective_kh skin d_factor connection_factor_mult completion_type dest =
     (let initial_args = [well_name, arg PNone branch_num, arg PNone lower_depth,
            arg PNone upper_depth,
            arg PNone depth_type, arg PNone status, arg PNone sat_num,
            arg PNone trans_factor, arg PNone well_diam, arg PNone effective_kh,
            arg (PInt 0) skin, arg PNone d_factor, arg (PInt 1) connection_factor_mult,
            arg PNone completion_type];
          keyword = ''COMPDATMD\<newline>'';
          keyword = foldl (arg_step fstr) keyword initial_args;
          keyword = keyword @ ''/\<newline>'';
          keyword = keyword @ ''/\<newline>\<newline>''
      in write_to_dest keyword dest)"

definition generic_kw_out :: "string \<Rightarrow> string \<Rightarrow> dest \<Rightarrow> sinks \<Rightarrow> sinks" where
  "generic_kw_out keyword args dest =
     (let keyword = keyword @ ''\<newline>'';
          keyword = keyword @ (args @ ''\<newline>/\<newline>\<newline>'')
      in write_to_dest keyword dest)"

section \<open>The calls made by the two scripts\<close>

text \<open>
  Both scripts only compute arguments and call writer functions with \<open>dest=outfile\<close>. A run is
  modelled by the sequence of these calls, in the order the script makes them, and the file
  by running the sequence. One constructor per writer function, carrying its arguments in
  parameter order.
\<close>

datatype call =
  SpecsOut pyval optarg optarg optarg optarg optarg optarg optarg
      optarg optarg optarg optarg optarg
| TrajOut pyval "(pyval \<times> pyval \<times> pyval \<times> pyval) list"
| DatesOut timestamp
| WconprodhOut pyval optarg optarg optarg optarg optarg optarg
      optarg optarg optarg optarg optarg
| WconinjhOut pyval optarg optarg optarg optarg optarg optarg
      optarg optarg optarg optarg optarg
| WefacOut pyval optarg optarg
| PerfOut pyval optarg optarg optarg optarg optarg optarg optarg
      optarg optarg optarg optarg optarg optarg
| GenericKwOut string string

fun exec_call :: "(pfloat \<Rightarrow> string) \<Rightarrow> call \<Rightarrow> sinks \<Rightarrow> error + sinks" where
  "exec_call fstr (SpecsOut a1 a2 a3 a4 a5 a6 a7 a8 a9 a10 a11 a12 a13) s =
     Inr (specs_out fstr a1 a2 a3 a4 a5 a6 a7 a8 a9 a10 a11 a12 a13 File s)"
| "exec_call fstr (TrajOut well_name coordinates) s =
     Inr (traj_out fstr well_name coordinates File s)"
| "exec_call fstr (DatesOut timestamp) s = dates_out timestamp File s"
| "exec_call fstr (WconprodhOut a1 a2 a3 a4 a5 a6 a7 a8 a9 a10 a11 a12) s =
     Inr (wconprodh_out fstr a1 a2 a3 a4 a5 a6 a7 a8 a9 a10 a11 a12 File s)"
| "exec_call fstr (WconinjhOut a1 a2 a3 a4 a5 a6 a7 a8 a9 a10 a11 a12) s =
     Inr (wconinjh_out fstr a1 a2 a3 a4 a5 a6 a7 a8 a9 a10 a11 a12 File s)"
| "exec_call fstr (WefacOut a1 a2 a3) s = Inr (wefac_out fstr a1 a2 a3 File s)"
| "exec_call fstr (PerfOut a1 a2 a3 a4 a5 a6 a7 a8 a9 a10 a11 a12 a13 a14) s =
     Inr (perf_out fstr a1 a2 a3 a4 a5 a6 a7 a8 a9 a10 a11 a12 a13 a14 File s)"
| "exec_call fstr (GenericKwOut keyword args) s = Inr (generic_kw_out keyword args File s)"

text \<open>
  Running calls in order. An exception ends the run; what was written before it stays in
  the file.
\<close>

fun run_calls :: "(pfloat \<Rightarrow> string) \<Rightarrow> call list \<Rightarrow> sinks \<Rightarrow> error option \<times> sinks" where
  "run_calls fstr [] s = (None, s)"
| "run_calls fstr (c # cs) s =
     (case exec_call fstr c s of
        Inl e \<Rightarrow> (Some e, s)
      | Inr s' \<Rightarrow> run_calls fstr cs s')"

text \<open>\<open>open(path, 'w')\<close> creates the file empty (or empties it).\<close>

definition open_w :: "sinks \<Rightarrow> sinks" where
  "open_w s = s\<lparr>outfile := []\<rparr>"

section \<open>Tables\<close>

text \<open>
  The cross-reference table \<open>well_table.csv\<close>, with the four columns the scripts read:
  the name in the model, the name in the monthly reports, the pad in the model and the
  field the well is bound to. Well names and field names are text.
\<close>

record well_row =
  model_name :: string
  mer_name :: string
  pad_name :: pyval
  field_name :: string

text \<open>First-seen order without repetition: \<open>Series.unique()\<close> and \<open>drop_duplicates\<close>.\<close>

fun drop_duplicates_by :: "('a \<Rightarrow> 'k) \<Rightarrow> 'k list \<Rightarrow> 'a list \<Rightarrow> 'a list" where
  "drop_duplicates_by key seen [] = []"
| "drop_duplicates_by key seen (x # xs) =
     (if key x \<in> set seen then drop_duplicates_by key seen xs
      else x # drop_duplicates_by key (key x # seen) xs)"

definition unique :: "'a list \<Rightarrow> 'a list" where
  "unique xs = drop_duplicates_by (\<lambda>x. x) [] xs"

text \<open>
  \<open>left.merge(right, 'right', left_on, right_on)\<close>: every row of the right table, in its
  order, paired with each left row of the same key, or with nothing when no left row has
  the key (the left columns of such a row are all missing).
\<close>

definition merge_right ::
  "('a \<Rightarrow> 'k) \<Rightarrow> ('b \<Rightarrow> 'k) \<Rightarrow> 'a list \<Rightarrow> 'b list \<Rightarrow> ('a option \<times> 'b) list" where
  "merge_right left_on right_on left right =
     concat (map (\<lambda>r.
       (case filter (\<lambda>l. left_on l = right_on r) left of
          [] \<Rightarrow> [(None, r)]
        | ls \<Rightarrow> map (\<lambda>l. (Some l, r)) ls)) right)"

text \<open>\<open>left.merge(right, 'left', left_on, right_on)\<close>, the mirror image.\<close>

definition merge_left ::
  "('a \<Rightarrow> 'k) \<Rightarrow> ('b \<Rightarrow> 'k) \<Rightarrow> 'a list \<Rightarrow> 'b list \<Rightarrow> ('a \<times> 'b option) list" where
  "merge_left left_on right_on left right =
     concat (map (\<lambda>l.
       (case filter (\<lambda>r. left_on l = right_on r) right of
          [] \<Rightarrow> [(l, None)]
        | rs \<Rightarrow> map (\<lambda>r. (l, Some r)) rs)) left)"

section \<open>welltracks: the trajectory script\<close>







section \<open>main_sch: the schedule script\<close>

text \<open>
  A parsed date \<open>(year, month, day)\<close>; the order on dates is the lexicographic one. Every
  timestamp compared in the script is at midnight.
\<close>

type_synonym date = "nat \<times> nat \<times> nat"

subsection \<open>Preprocessing\<close>

definition isleap :: "nat \<Rightarrow> bool" where
  "isleap year = (year mod 4 = 0 \<and> (year mod 100 \<noteq> 0 \<or> year mod 400 = 0))"

definition mdays :: "nat list" where
  "mdays = [0, 31, 28, 31, 30, 31, 30, 31, 31, 30, 31, 30, 31]"

text \<open>\<open>calendar.monthrange(year, month)[1]\<close>, the number of days of the month.\<close>

definition monthrange_days :: "nat \<Rightarrow> nat \<Rightarrow> error + nat" where
  "monthrange_days year month =
     (if \<not> (1 \<le> month \<and> month \<le> 12) then Inl IllegalMonthError
      else Inr (mdays ! month + (if month = 2 \<and> isleap year then 1 else 0)))"

text \<open>A row of a production file, and the row after \<open>preprocess_prod\<close>.\<close>

record prod_raw =
  raw_WELL :: string
  raw_DATE :: date
  raw_OIL :: pfloat
  raw_WATER :: pfloat
  raw_GAS :: pfloat
  raw_WINJ :: pfloat
  raw_DAYS :: pfloat
  raw_BHP :: pfloat
  raw_THP :: pfloat

record prod_row =
  WELL :: string
  DATE :: date
  month_length :: nat
  OIL :: pfloat
  WATER :: pfloat
  GAS :: pfloat
  WINJ :: pfloat
  DAYS :: pfloat
  BHP :: pfloat
  THP :: pfloat

definition preprocess_prod_row :: "prod_raw \<Rightarrow> error + prod_row" where
  "preprocess_prod_row r =
     (case monthrange_days (fst (raw_DATE r)) (fst (snd (raw_DATE r))) of
        Inl e \<Rightarrow> Inl e
      | Inr ml \<Rightarrow>
          Inr \<lparr>WELL = raw_WELL r, DATE = raw_DATE r, month_length = ml,
               OIL = fdiv (raw_OIL r) (raw_DAYS r),
               WATER = fdiv (raw_WATER r) (raw_DAYS r),
               GAS = fdiv (raw_GAS r) (raw_DAYS r),
               WINJ = fdiv (raw_WINJ r) (raw_DAYS r),
               DAYS = raw_DAYS r, BHP = raw_BHP r, THP = raw_THP r\<rparr>)"

text \<open>
  The rows of \<open>preprocess_prod\<close>, on a table whose rows carry further columns \<open>x\<close> (those
  of the join), which it leaves alone.
\<close>

fun preprocess_prod_rows :: "(prod_raw \<times> 'x) list \<Rightarrow> error + (prod_row \<times> 'x) list" where
  "preprocess_prod_rows [] = Inr []"
| "preprocess_prod_rows ((r, x) # df) =
     (case preprocess_prod_row r of
        Inl e \<Rightarrow> Inl e
      | Inr row \<Rightarrow>
          (case preprocess_prod_rows df of
             Inl e \<Rightarrow> Inl e
           | Inr rows \<Rightarrow> Inr ((row, x) # rows)))"

text \<open>
  \<open>preprocess_prod\<close>. On a table without rows \<open>df.apply(..., axis=1)\<close> returns a frame
  instead of a column, and the assignment to \<open>df['month_length']\<close> raises \<open>ValueError\<close>.
\<close>

definition preprocess_prod :: "(prod_raw \<times> 'x) list \<Rightarrow> error + (prod_row \<times> 'x) list" where
  "preprocess_prod df = (if df = [] then Inl ValueError else preprocess_prod_rows df)"

text \<open>A row of a perforation file, and the row after \<open>preprocess_perf\<close>.\<close>

record perf_raw =
  raw_perf_well :: string
  raw_perf_date :: date
  raw_perf_type :: "string option"
  raw_interval_start :: pfloat
  raw_interval_end :: pfloat

record perf_row =
  perf_well :: string
  perf_date :: date
  perf_type :: "string option"
  interval_start :: pfloat
  interval_end :: pfloat
  perf_flag :: bool

text \<open>The substring test \<open>sub in s\<close>.\<close>

definition py_in :: "string \<Rightarrow> string \<Rightarrow> bool" where
  "py_in sub s = list_ex (\<lambda>i. take (length sub) (drop i s) = sub) [0 ..< Suc (length s)]"

text \<open>The marker of an opening perforation, four Cyrillic capitals in UTF-8.\<close>

definition PERF_marker :: string where
  "PERF_marker = [CHR 0xD0, CHR 0x9F, CHR 0xD0, CHR 0x95, CHR 0xD0, CHR 0xA0, CHR 0xD0, CHR 0xA4]"

definition preprocess_perf :: "perf_raw list \<Rightarrow> perf_row list" where
  "preprocess_perf df =
     map (\<lambda>r. \<lparr>perf_well = raw_perf_well r,
               perf_date = (fst (raw_perf_date r), fst (snd (raw_perf_date r)), 1),
               perf_type = raw_perf_type r,
               interval_start = raw_interval_start r,
               interval_end = raw_interval_end r,
               perf_flag = (case raw_perf_type r of
                              None \<Rightarrow> True
                            | Some row \<Rightarrow> (if py_in PERF_marker row then True else False))\<rparr>) df"

text \<open>A row of the manual operations file; \<open>preprocess_manops\<close> only parses its date.\<close>

record manop_row =
  manop_date :: date
  manop_field :: string
  manop_keyword :: string
  manop_args :: string

subsection \<open>The time steps\<close>

text \<open>
  \<open>pd.date_range(start_date, end_date, freq='1MS')\<close>: the first days of the months that lie
  in the closed range, in increasing order. Months are counted from year 0.
\<close>

definition month_index :: "date \<Rightarrow> nat" where
  "month_index d = 12 * fst d + (fst (snd d) - 1)"

definition month_start :: "nat \<Rightarrow> date" where
  "month_start n = (n div 12, n mod 12 + 1, 1)"

definition date_range_MS :: "date \<Rightarrow> date \<Rightarrow> date list" where
  "date_range_MS start_date end_date =
     (let first = (if snd (snd start_date) = 1 then month_index start_date
                   else Suc (month_index start_date))
      in map month_start [first ..< Suc (month_index end_date)])"

subsection \<open>The calls of one time step\<close>

type_synonym prod_df = "(prod_row \<times> well_row option) list"
type_synonym perf_df = "(perf_row option \<times> well_row) list"

text \<open>
  The two comparisons of the perforation date with the time step. The date is missing on
  the row of a well without perforations, and a comparison with a missing date is false.
\<close>

definition perf_date_before :: "date \<Rightarrow> perf_row option \<times> well_row \<Rightarrow> bool" where
  "perf_date_before timestep row =
     (case fst row of None \<Rightarrow> False | Some p \<Rightarrow> perf_date p < timestep)"

definition perf_date_at :: "date \<Rightarrow> perf_row option \<times> well_row \<Rightarrow> bool" where
  "perf_date_at timestep row =
     (case fst row of None \<Rightarrow> False | Some p \<Rightarrow> perf_date p = timestep)"

text \<open>
  The \<open>perf_out\<close> call of lines 115 and 141. On a row without perforation columns the
  depths are \<open>nan\<close> and so is the flag, which Python takes for true.
\<close>

definition perf_call :: "perf_row option \<times> well_row \<Rightarrow> call" where
  "perf_call row =
     PerfOut (PStr (model_name (snd row))) None
       (Some (case fst row of None \<Rightarrow> PFloat NaN | Some p \<Rightarrow> PFloat (interval_start p)))
       (Some (case fst row of None \<Rightarrow> PFloat NaN | Some p \<Rightarrow> PFloat (interval_end p)))
       (Some (PStr ''MD''))
       (Some (PStr (if (case fst row of None \<Rightarrow> True | Some p \<Rightarrow> perf_flag p)
                    then ''OPEN'' else ''SHUT'')))
       None None (Some (PFloat (Fin (16 / 100)))) None None None None None"

text \<open>\<open>row[col] if row[col] > 0 else '*'\<close>\<close>

definition pressure_arg :: "pfloat \<Rightarrow> pyval" where
  "pressure_arg x = (if gt0 x then PFloat x else PStr ''*'')"

text \<open>The body of the loop over the production rows of the time step (lines 153 to 187).\<close>

definition prod_calls :: "prod_row \<Rightarrow> call list" where
  "prod_calls row =
     (let write_weff = False;
          (calls, write_weff) =
            (if gt0 (WINJ row) then
               ([WconinjhOut (PStr (WELL row)) (Some (PStr ''WATER'')) (Some (PStr ''OPEN''))
                   (Some (PFloat (WINJ row))) (Some (pressure_arg (BHP row)))
                   (Some (pressure_arg (THP row)))
                   None None None None None (Some (PStr ''RATE''))], True)
             else ([], write_weff));
          (calls, write_weff) =
            (if gt0 (OIL row) then
               (calls @
                [WconprodhOut (PStr (WELL row)) (Some (PStr ''OPEN'')) (Some (PStr ''LRAT''))
                   (Some (PFloat (OIL row))) (Some (PFloat (WATER row)))
                   (Some (PFloat (GAS row)))
                   None None (Some (pressure_arg (THP row))) (Some (pressure_arg (BHP row)))
                   None None], True)
             else (calls, write_weff));
          calls =
            (if write_weff then
               calls @
               [WefacOut (PStr (WELL row))
                  (Some (PFloat (fdiv (DAYS row) (Fin (of_nat (month_length row)))))) None]
             else calls)
      in calls)"

text \<open>The three calls that reset the controls of the previous time step.\<close>

definition reset_calls :: "call list" where
  "reset_calls =
     [WconprodhOut (PStr ''*'') (Some (PStr ''SHUT'')) (Some (PStr ''LRAT''))
        None None None None None None None None None,
      WconinjhOut (PStr ''*'') (Some (PStr ''WATER'')) (Some (PStr ''SHUT''))
        None None None None None None None None None,
      WefacOut (PStr ''*'') (Some (PInt 1)) None]"

text \<open>\<open>timestep.date()\<close>\<close>

definition to_pydate :: "date \<Rightarrow> timestamp" where
  "to_pydate timestep = PyDate (fst timestep) (fst (snd timestep)) (snd (snd timestep))"

text \<open>Lines 136 to 196: the perforations, the controls and the manual operations.\<close>

definition slice_calls :: "date \<Rightarrow> prod_df \<Rightarrow> perf_df \<Rightarrow> manop_row list \<Rightarrow> call list" where
  "slice_calls timestep production perf man_ops =
     (let production_slice = filter (\<lambda>row. DATE (fst row) = timestep) production;
          perf_slice = filter (perf_date_at timestep) perf;
          man_ops_slice = filter (\<lambda>row. manop_date row = timestep) man_ops
      in map perf_call perf_slice
         @ concat (map (\<lambda>row. prod_calls (fst row)) production_slice)
         @ map (\<lambda>row. GenericKwOut (manop_keyword row) (manop_args row)) man_ops_slice)"

text \<open>The body of the loop over the time steps (lines 112 to 196).\<close>

definition timestep_calls ::
  "bool \<Rightarrow> date \<Rightarrow> prod_df \<Rightarrow> perf_df \<Rightarrow> manop_row list \<Rightarrow> call list" where
  "timestep_calls first_month_flag timestep production perf man_ops =
     (if first_month_flag
      then map perf_call (filter (perf_date_before timestep) perf) else [])
     @ (if \<not> first_month_flag then DatesOut (to_pydate timestep) # reset_calls else [])
     @ slice_calls timestep production perf man_ops"

text \<open>The loop; the flag is cleared at the end of the first pass.\<close>

fun timestep_loop ::
  "bool \<Rightarrow> date list \<Rightarrow> prod_df \<Rightarrow> perf_df \<Rightarrow> manop_row list \<Rightarrow> call list" where
  "timestep_loop first_month_flag [] production perf man_ops = []"
| "timestep_loop first_month_flag (timestep # timesteps) production perf man_ops =
     timestep_calls first_month_flag timestep production perf man_ops
     @ timestep_loop False timesteps production perf man_ops"

subsection \<open>The script\<close>

text \<open>Lines 90 to 98: the perforation table.\<close>

definition perf_table :: "perf_raw list \<Rightarrow> perf_raw list \<Rightarrow> well_row list \<Rightarrow> string \<Rightarrow> perf_df" where
  "perf_table perf_kmb perf_tk well_table field =
     (let perf = perf_kmb @ perf_tk;
          perf = unique perf;
          perf = preprocess_perf perf;
          perf = merge_right perf_well mer_name perf well_table;
          perf = filter (\<lambda>row. field_name (snd row) = field) perf
      in perf)"

text \<open>Lines 81 to 88: the production table.\<close>

definition production_table ::
  "prod_raw list \<Rightarrow> prod_raw list \<Rightarrow> well_row list \<Rightarrow> string \<Rightarrow> error + prod_df" where
  "production_table production_kmb production_tk well_table field =
     (let production = production_kmb @ production_tk;
          production = merge_left raw_WELL model_name production well_table
      in case preprocess_prod production of
           Inl e \<Rightarrow> Inl e
         | Inr production \<Rightarrow>
             Inr (filter (\<lambda>row. (case snd row of None \<Rightarrow> False
                                  | Some w \<Rightarrow> field_name w = field)) production))"

definition main_sch ::
  "(pfloat \<Rightarrow> string) \<Rightarrow> prod_raw list \<Rightarrow> prod_raw list \<Rightarrow> perf_raw list \<Rightarrow> perf_raw list \<Rightarrow>
   manop_row list \<Rightarrow> well_row list \<Rightarrow> date \<Rightarrow> date \<Rightarrow> string \<Rightarrow> sinks \<Rightarrow> error option \<times> sinks" where
  "main_sch fstr production_kmb production_tk perf_kmb perf_tk man_ops_csv well_table
     start_date end_date field s =
     (case production_table production_kmb production_tk well_table field of
        Inl e \<Rightarrow> (Some e, s)
      | Inr production \<Rightarrow>
          (let perf = perf_table perf_kmb perf_tk well_table field;
               perf_slice = filter (\<lambda>row. fst row = None) perf
           in if \<not> (length perf_slice \<le> 1)
              then (Some (AssertionError (map (\<lambda>row. model_name (snd row)) perf_slice)), s)
              else
                (let man_ops = filter (\<lambda>row. manop_field row = field) man_ops_csv
                 in run_calls fstr
                      (timestep_loop True (date_range_MS start_date end_date)
                         production perf man_ops)
                      (open_w s))))"

section \<open>Reading the written text\<close>

text \<open>
  The token that a bound parameter leaves on the argument line: the wildcard for \<open>None\<close>,
  the text of the value otherwise.
\<close>

definition token :: "(pfloat \<Rightarrow> string) \<Rightarrow> pyval \<Rightarrow> string" where
  "token fstr val = (if val = PNone then ''*'' else py_str fstr val)"

text \<open>\<open>s.split(c)\<close>: the pieces of \<open>s\<close> between the occurrences of \<open>c\<close>.\<close>

fun split_on :: "'a \<Rightarrow> 'a list \<Rightarrow> 'a list list" where
  "split_on c [] = [[]]"
| "split_on c (x # xs) =
     (if x = c then [] # split_on c xs
      else (case split_on c xs of [] \<Rightarrow> [[x]] | w # ws \<Rightarrow> (x # w) # ws))"

text \<open>The lines of a text, each one ended by a newline.\<close>

definition text_lines :: "string \<Rightarrow> string list" where
  "text_lines s = butlast (split_on CHR ''\<newline>'' s)"

text \<open>
  The layout of a single-line record: the keyword name on a line, the tokens each followed
  by a space and then the slash that ends the line, a line with only a slash, an empty line.
\<close>

definition single_line_text :: "(pfloat \<Rightarrow> string) \<Rightarrow> string \<Rightarrow> pyval list \<Rightarrow> string" where
  "single_line_text fstr name args =
     name @ ''\<newline>'' @ concat (map (\<lambda>v. token fstr v @ '' '') args) @ ''/\<newline>''
     @ ''/\<newline>\<newline>''"

text \<open>The tokens of the argument line of a single-line record, without the closing slash.\<close>

definition arg_line_tokens :: "string \<Rightarrow> string list" where
  "arg_line_tokens text =
     (case text_lines text of
        name # line # _ \<Rightarrow> butlast (split_on CHR '' '' line)
      | _ \<Rightarrow> [])"

text \<open>The empty output state.\<close>

definition no_output :: sinks where
  "no_output = \<lparr>console = [], outfile = []\<rparr>"

section \<open>Reading the sequence of calls\<close>

fun is_dates :: "call \<Rightarrow> bool" where
  "is_dates (DatesOut t) = True"
| "is_dates _ = False"

fun is_perf :: "call \<Rightarrow> bool" where
  "is_perf (PerfOut a1 a2 a3 a4 a5 a6 a7 a8 a9 a10 a11 a12 a13 a14) = True"
| "is_perf _ = False"


fun is_wconinjh :: "call \<Rightarrow> bool" where
  "is_wconinjh (WconinjhOut a1 a2 a3 a4 a5 a6 a7 a8 a9 a10 a11 a12) = True"
| "is_wconinjh _ = False"


text \<open>
  The rows of the perforation table for which the loop over the time steps calls
  \<open>perf_out\<close>, in the order of the calls.
\<close>

fun perf_rows_emitted :: "bool \<Rightarrow> date list \<Rightarrow> perf_df \<Rightarrow> perf_df" where
  "perf_rows_emitted first_month_flag [] perf = []"
| "perf_rows_emitted first_month_flag (timestep # timesteps) perf =
     (if first_month_flag then filter (perf_date_before timestep) perf else [])
     @ filter (perf_date_at timestep) perf
     @ perf_rows_emitted False timesteps perf"

text \<open>What parsing guarantees of a date: a month from 1 to 12 and a day from 1.\<close>

definition valid_date :: "date \<Rightarrow> bool" where
  "valid_date d = (1 \<le> fst (snd d) \<and> fst (snd d) \<le> 12 \<and> 1 \<le> snd (snd d))"

text \<open>
  The rows of the cross-reference table, within the field, whose report name no perforation
  row carries.
\<close>

definition wells_without_perf ::
  "perf_raw list \<Rightarrow> perf_raw list \<Rightarrow> well_row list \<Rightarrow> string \<Rightarrow> well_row list" where
  "wells_without_perf perf_kmb perf_tk well_table field =
     filter (\<lambda>w. field_name w = field \<and> mer_name w \<notin> raw_perf_well ` set (perf_kmb @ perf_tk))
       well_table"


section \<open>Example rows\<close>

text \<open>
  A float printer for the examples (numbers from 0 with at most one decimal, as Python
  prints them), rows of the cross-reference table, and rows of the production, perforation
  and trajectory tables. The production row \<open>ex_prod_raw\<close> is the one with OIL 100,
  WATER 0, GAS 50 and DAYS 20 in April.
\<close>

definition ex_fstr :: "pfloat \<Rightarrow> string" where
  "ex_fstr x =
     (case x of
        Fin r \<Rightarrow> str_int \<lfloor>r\<rfloor> @ ''.'' @ str_int (\<lfloor>10 * r\<rfloor> mod 10)
      | NegZero \<Rightarrow> ''-0.0'' | PosInf \<Rightarrow> ''inf'' | NegInf \<Rightarrow> ''-inf'' | NaN \<Rightarrow> ''nan'')"

definition ex_prod_raw :: prod_raw where
  "ex_prod_raw = \<lparr>raw_WELL = ''W1'', raw_DATE = (2020, 4, 1), raw_OIL = Fin 100,
     raw_WATER = Fin 0, raw_GAS = Fin 50, raw_WINJ = Fin 0, raw_DAYS = Fin 20,
     raw_BHP = Fin 0, raw_THP = Fin 0\<rparr>"




definition ex_well :: well_row where
  "ex_well = \<lparr>model_name = ''W1'', mer_name = ''K101'', pad_name = PStr ''P1'',
     field_name = ''F''\<rparr>"

definition ex_prod_row :: prod_row where
  "ex_prod_row = \<lparr>WELL = ''W1'', DATE = (2020, 4, 1), month_length = 30, OIL = Fin 5,
     WATER = Fin 0, GAS = Fin (5 / 2), WINJ = Fin 0, DAYS = Fin 20, BHP = Fin 0, THP = Fin 0\<rparr>"

definition ex_perf_raw :: perf_raw where
  "ex_perf_raw = \<lparr>raw_perf_well = ''K101'', raw_perf_date = (2020, 1, 10),
     raw_perf_type = None, raw_interval_start = Fin 1500, raw_interval_end = Fin 1510\<rparr>"

definition ex_perf_row :: perf_row where
  "ex_perf_row = \<lparr>perf_well = ''K101'', perf_date = (2020, 1, 1), perf_type = None,
     interval_start = Fin 1500, interval_end = Fin 1510, perf_flag = True\<rparr>"



text \<open>A second cross-reference row for the report name of \<open>ex_well\<close>, and another well.\<close>

definition ex_well_twin :: well_row where
  "ex_well_twin = \<lparr>model_name = ''W2'', mer_name = ''K101'', pad_name = PStr ''P1'',
     field_name = ''F''\<rparr>"

definition ex_well3 :: well_row where
  "ex_well3 = \<lparr>model_name = ''W3'', mer_name = ''K103'', pad_name = PStr ''P1'',
     field_name = ''F''\<rparr>"

text \<open>Perforation rows of two wells that the cross-reference table does not list.\<close>

definition ex_perf_raw_A :: perf_raw where
  "ex_perf_raw_A = \<lparr>raw_perf_well = ''A'', raw_perf_date = (2020, 1, 10), raw_perf_type = None,
     raw_interval_start = Fin 1500, raw_interval_end = Fin 1510\<rparr>"

definition ex_perf_raw_B :: perf_raw where
  "ex_perf_raw_B = \<lparr>raw_perf_well = ''B'', raw_perf_date = (2020, 2, 10), raw_perf_type = None,
     raw_interval_start = Fin 1500, raw_interval_end = Fin 1510\<rparr>"

section \<open>Text helpers\<close>

lemma split_on_notin: "c \<notin> set xs \<Longrightarrow> split_on c xs = [xs]"
  by (induction xs) auto

lemma split_on_append: "c \<notin> set xs \<Longrightarrow> split_on c (xs @ c # ys) = xs # split_on c ys"
  by (induction xs) auto

lemma split_on_concat:
  "\<forall>t\<in>set ts. c \<notin> set t \<Longrightarrow>
   split_on c (concat (map (\<lambda>t. t @ [c]) ts) @ rest) = ts @ split_on c rest"
proof (induction ts)
  case Nil then show ?case by simp
next
  case (Cons t ts)
  then have "c \<notin> set t" by simp
  from split_on_append[OF this, of "concat (map (\<lambda>t. t @ [c]) ts) @ rest"] Cons show ?case by simp
qed

lemma foldl_arg_step:
  "foldl (arg_step fstr) k args = k @ concat (map (\<lambda>v. token fstr v @ '' '') args)"
  by (induction args arbitrary: k) (auto simp: arg_step_def token_def)

lemma foldl_specs_step:
  "foldl (specs_step fstr) k args = k @ concat (map (\<lambda>v. token fstr v @ '' '') args)"
  by (induction args arbitrary: k) (auto simp: specs_step_def token_def)

lemma outfile_write_File: "outfile (write_to_dest t File s) = outfile s @ t"
  by (simp add: write_to_dest_def)

lemma text_lines_single:
  assumes "CHR ''\<newline>'' \<notin> set name" "\<forall>v\<in>set args. CHR ''\<newline>'' \<notin> set (token fstr v)"
  shows "text_lines (single_line_text fstr name args) =
         [name, concat (map (\<lambda>v. token fstr v @ '' '') args) @ ''/'', ''/'', '''']"
proof -
  let ?line = "concat (map (\<lambda>v. token fstr v @ '' '') args) @ ''/''"
  have l: "CHR ''\<newline>'' \<notin> set ?line" using assms(2) by auto
  have "single_line_text fstr name args = name @ CHR ''\<newline>'' # (?line @ CHR ''\<newline>'' # (''/'' @ CHR ''\<newline>'' # ([] @ CHR ''\<newline>'' # [])))"
    by (simp add: single_line_text_def)
  then show ?thesis
    unfolding text_lines_def
    by (simp only: split_on_append[OF assms(1)] split_on_append[OF l]) simp
qed

lemma digit_chars:
  "digit_char 0 = CHR ''0''" "digit_char 1 = CHR ''1''" "digit_char 2 = CHR ''2''"
  "digit_char 3 = CHR ''3''" "digit_char 4 = CHR ''4''" "digit_char 5 = CHR ''5''"
  "digit_char 6 = CHR ''6''" "digit_char 7 = CHR ''7''" "digit_char 8 = CHR ''8''"
  "digit_char 9 = CHR ''9''" "digit_char (Suc 0) = CHR ''1''"
  by code_simp+

lemma str_nat_lt10: "n < 10 \<Longrightarrow> str_nat n = [digit_char n]"
  by (simp add: str_nat.simps)

lemma str_nat_ge10: "10 \<le> n \<Longrightarrow> str_nat n = str_nat (n div 10) @ [digit_char (n mod 10)]"
  by (subst str_nat.simps) simp

lemma fmt02_lt100: "n < 100 \<Longrightarrow> fmt02 n = [digit_char (n div 10), digit_char (n mod 10)]"
proof (cases "n < 10")
  case True then show ?thesis by (simp add: fmt02_def str_nat_lt10 digit_chars)
next
  case False
  assume "n < 100"
  with False have "n div 10 < 10" "10 \<le> n" by auto
  then show ?thesis by (simp add: fmt02_def str_nat_ge10 str_nat_lt10)
qed

lemma str_nat_4: "1000 \<le> n \<Longrightarrow> n < 10000 \<Longrightarrow>
  str_nat n = [digit_char (n div 1000), digit_char (n div 100 mod 10), digit_char (n div 10 mod 10), digit_char (n mod 10)]"
proof -
  assume a: "1000 \<le> n" "n < 10000"
  then have 1: "10 \<le> n" "10 \<le> n div 10" "10 \<le> n div 10 div 10" "n div 10 div 10 div 10 < 10" by auto
  have e: "n div 10 div 10 = n div 100" "n div 100 div 10 = n div 1000"
    by (simp_all add: div_mult2_eq[symmetric])
  show ?thesis
    using 1 by (simp add: str_nat_ge10 str_nat_lt10 e)
qed

lemma month_codes_table:
  "map month_codes [1 ..< 13] = map Some [''JAN'', ''FEB'', ''MAR'', ''APR'', ''MAY'', ''JUN'', ''JLY'', ''AUG'', ''SEP'', ''OCT'', ''NOV'', ''DEC'']"
  by (simp add: month_codes_def upt_rec)

lemma month_codes_valid: "1 \<le> m \<Longrightarrow> m \<le> 12 \<Longrightarrow> \<exists>code. month_codes m = Some code \<and> length code = 3"
proof -
  assume "1 \<le> m" "m \<le> 12"
  then have "m = 1 \<or> m = 2 \<or> m = 3 \<or> m = 4 \<or> m = 5 \<or> m = 6 \<or> m = 7 \<or> m = 8 \<or> m = 9
    \<or> m = 10 \<or> m = 11 \<or> m = 12" by arith
  then show ?thesis by (auto simp: month_codes_def)
qed


lemma dates_out_date:
  "month_codes m = Some code \<Longrightarrow>
   dates_out (PyDate y m d) File s =
     Inr (s\<lparr>outfile := outfile s @ ''DATES\<newline>'' @ fmt02 d @ '' '' @ code @ '' '' @ str_nat y
            @ '' /\<newline>'' @ ''/\<newline>\<newline>''\<rparr>)"
  by (simp add: dates_out_def hour_tail_def write_to_dest_def)

lemma dates_out_datetime:
  "month_codes m = Some code \<Longrightarrow>
   dates_out (PyDatetime y m d hh mi ss) File s =
     Inr (s\<lparr>outfile := outfile s @ ''DATES\<newline>'' @ fmt02 d @ '' '' @ code @ '' '' @ str_nat y
            @ '' '' @ fmt02 hh @ '':'' @ fmt02 mi @ '':'' @ fmt02 ss @ '' /\<newline>'' @ ''/\<newline>\<newline>''\<rparr>)"
  by (simp add: dates_out_def hour_tail_def write_to_dest_def)

section \<open>Dates and time steps\<close>

lemma month_start_mono: "a \<le> b \<Longrightarrow> month_start a \<le> month_start b"
proof -
  assume "a \<le> b"
  then have "a div 12 < b div 12 \<or> (a div 12 = b div 12 \<and> a mod 12 \<le> b mod 12)"
    by (metis div_le_mono le_neq_implies_less div_mult_mod_eq add_le_cancel_left)
  then show ?thesis
    by (auto simp: month_start_def less_eq_prod_def)
qed

lemma start_le_first:
  assumes "valid_date start_date"
  shows "start_date \<le> month_start (if snd (snd start_date) = 1 then month_index start_date
                   else Suc (month_index start_date))"
    (is "_ \<le> month_start ?first")
proof -
  obtain y m d where s: "start_date = (y, m, d)" by (cases start_date) auto
  from assms s have v: "1 \<le> m" "m \<le> 12" "1 \<le> d" by (auto simp: valid_date_def)
  then obtain k where k: "m = Suc k" "k < 12" by (cases m) auto
  have idx: "month_index start_date = 12 * y + k" by (simp add: s month_index_def k)
  show ?thesis
  proof (cases "d = 1")
    case True
    have f: "?first = 12 * y + k" using True idx by (simp add: s)
    have "month_start (12 * y + k) = (y, Suc k, 1)" using k by (simp add: month_start_def)
    then show ?thesis unfolding f by (simp add: s k True)
  next
    case False
    with v have d: "1 < d" by simp
    have f: "?first = Suc (12 * y + k)" using False idx by (simp add: s)
    show ?thesis
    proof (cases "k = 11")
      case True
      have "Suc (12 * y + k) = 12 * (y + 1)" using True by simp
      moreover have "month_start (12 * (y + 1)) = (y + 1, 1, 1)"
        by (simp add: month_start_def del: mult_Suc_right)
      ultimately have "month_start ?first = (y + 1, 1, 1)" unfolding f by simp
      then show ?thesis by (simp add: s less_eq_prod_def less_prod_def)
    next
      case k11: False
      with k have "Suc k < 12" by simp
      then have "(12 * y + Suc k) div 12 = y" "(12 * y + Suc k) mod 12 = Suc k"
        by simp_all
      then have "month_start (Suc (12 * y + k)) = (y, Suc (Suc k), 1)"
        by (simp add: month_start_def)
      then have "month_start ?first = (y, Suc (Suc k), 1)" unfolding f .
      then show ?thesis by (simp add: s k less_eq_prod_def less_prod_def)
    qed
  qed
qed

lemma date_range_ge_start:
  assumes "valid_date start_date" "t \<in> set (date_range_MS start_date end_date)"
  shows "start_date \<le> t"
proof -
  let ?first = "(if snd (snd start_date) = 1 then month_index start_date
                   else Suc (month_index start_date))"
  from assms(2) obtain n where n: "?first \<le> n" "t = month_start n"
    by (auto simp: date_range_MS_def Let_def)
  from start_le_first[OF assms(1)] month_start_mono[OF n(1)] n(2) show ?thesis
    by (metis order_trans)
qed

lemma floor_le: "1 \<le> snd (snd d) \<Longrightarrow> (fst d, fst (snd d), 1) \<le> (d::date)"
  by (cases d) (auto simp: less_eq_prod_def)

section \<open>The calls of a time step\<close>

lemma prod_calls_eq:
  "prod_calls row =
     (if gt0 (WINJ row) then
        [WconinjhOut (PStr (WELL row)) (Some (PStr ''WATER'')) (Some (PStr ''OPEN''))
           (Some (PFloat (WINJ row))) (Some (pressure_arg (BHP row)))
           (Some (pressure_arg (THP row)))
           None None None None None (Some (PStr ''RATE''))] else [])
     @ (if gt0 (OIL row) then
        [WconprodhOut (PStr (WELL row)) (Some (PStr ''OPEN'')) (Some (PStr ''LRAT''))
           (Some (PFloat (OIL row))) (Some (PFloat (WATER row)))
           (Some (PFloat (GAS row)))
           None None (Some (pressure_arg (THP row))) (Some (pressure_arg (BHP row)))
           None None] else [])
     @ (if gt0 (WINJ row) \<or> gt0 (OIL row) then
        [WefacOut (PStr (WELL row))
           (Some (PFloat (fdiv (DAYS row) (Fin (of_nat (month_length row)))))) None] else [])"
  by (simp add: prod_calls_def Let_def)

lemma filter_is_perf_prod: "filter is_perf (concat (map (\<lambda>row. prod_calls (fst row)) rows)) = []"
  by (induction rows) (auto simp: prod_calls_eq)

lemma filter_is_perf_perf: "filter is_perf (map perf_call rows) = map perf_call rows"
  by (induction rows) (auto simp: perf_call_def)

lemma filter_is_perf_generic:
  "filter is_perf (map (\<lambda>row. GenericKwOut (manop_keyword row) (manop_args row)) rows) = []"
  by (induction rows) auto

lemma filter_is_perf_slice:
  "filter is_perf (slice_calls timestep production perf man_ops) =
   map perf_call (filter (perf_date_at timestep) perf)"
  by (simp add: slice_calls_def Let_def filter_is_perf_prod filter_is_perf_perf filter_is_perf_generic)

lemma filter_is_perf_timestep:
  "filter is_perf (timestep_calls flag timestep production perf man_ops) =
   map perf_call ((if flag then filter (perf_date_before timestep) perf else [])
                  @ filter (perf_date_at timestep) perf)"
  by (simp add: timestep_calls_def filter_is_perf_slice filter_is_perf_perf reset_calls_def)

lemma filter_is_perf_loop:
  "filter is_perf (timestep_loop flag timesteps production perf man_ops) =
   map perf_call (perf_rows_emitted flag timesteps perf)"
  by (induction timesteps arbitrary: flag) (simp_all add: filter_is_perf_timestep)

lemma count_list_filter_True: "P x \<Longrightarrow> count_list (filter P xs) x = count_list xs x"
  by (induction xs) auto

lemma count_list_filter_False: "\<not> P x \<Longrightarrow> count_list (filter P xs) x = 0"
  by (induction xs) auto

lemma later_steps_none:
  assumes "\<forall>t\<in>set timesteps. \<not> perf_date_at t row"
  shows "count_list (perf_rows_emitted False timesteps perf) row = 0"
  using assms by (induction timesteps) (simp_all add: count_list_filter_False)

lemma no_dates_prod_calls: "\<not> list_ex is_dates (prod_calls row)"
  by (simp add: prod_calls_eq)

lemma no_dates_slice_calls: "c \<in> set (slice_calls timestep production perf man_ops) \<Longrightarrow> \<not> is_dates c"
  using no_dates_prod_calls
  by (auto simp: slice_calls_def Let_def perf_call_def list_ex_iff)

lemma dates_timestep_calls:
  "DatesOut t \<in> set (timestep_calls flag timestep production perf man_ops) \<Longrightarrow> t = to_pydate timestep"
  using no_dates_slice_calls[of "DatesOut t" timestep production perf man_ops]
  by (auto simp: timestep_calls_def reset_calls_def perf_call_def split: if_splits)

lemma dates_timestep_loop:
  "DatesOut t \<in> set (timestep_loop flag timesteps production perf man_ops) \<Longrightarrow>
   t \<in> to_pydate ` set timesteps"
proof (induction timesteps arbitrary: flag)
  case Nil
  then show ?case by simp
next
  case (Cons ts timesteps)
  from Cons.prems have "DatesOut t \<in> set (timestep_calls flag ts production perf man_ops)
      \<or> DatesOut t \<in> set (timestep_loop False timesteps production perf man_ops)"
    by simp
  then show ?case
    using dates_timestep_calls Cons.IH by fastforce
qed

section \<open>The date-stamp record\<close>

text \<open>
  C8. For a month from 1 to 12, \<open>dates_out\<close> writes the keyword line and then the line
  \<open>DD MON YYYY /\<close> for a date, and \<open>DD MON YYYY HH:MM:SS /\<close> for a datetime, where
  \<open>MON\<close> is the three-letter entry of the month in the fixed table, whose seventh entry is
  \<open>JLY\<close>; the day is written with two digits and a year from 1000 to 9999 with four. The
  time is on the line exactly when the timestamp is a datetime.
\<close>

theorem dates_out_format:
  assumes "1 \<le> m" and "m \<le> 12"
  shows "(\<exists>code. month_codes m = Some code \<and> length code = 3 \<and>
           dates_out (PyDate y m d) File s =
             Inr (s\<lparr>outfile := outfile s @ ''DATES\<newline>'' @ fmt02 d @ '' '' @ code @ '' ''
                    @ str_nat y @ '' /\<newline>'' @ ''/\<newline>\<newline>''\<rparr>) \<and>
           dates_out (PyDatetime y m d hh mi ss) File s =
             Inr (s\<lparr>outfile := outfile s @ ''DATES\<newline>'' @ fmt02 d @ '' '' @ code @ '' ''
                    @ str_nat y @ '' '' @ fmt02 hh @ '':'' @ fmt02 mi @ '':'' @ fmt02 ss
                    @ '' /\<newline>'' @ ''/\<newline>\<newline>''\<rparr>))
       \<and> map month_codes [1 ..< 13] =
           map Some [''JAN'', ''FEB'', ''MAR'', ''APR'', ''MAY'', ''JUN'', ''JLY'', ''AUG'',
                     ''SEP'', ''OCT'', ''NOV'', ''DEC'']
       \<and> (d < 100 \<longrightarrow> fmt02 d = [digit_char (d div 10), digit_char (d mod 10)])
       \<and> (1000 \<le> y \<and> y < 10000 \<longrightarrow>
           str_nat y = [digit_char (y div 1000), digit_char (y div 100 mod 10),
                        digit_char (y div 10 mod 10), digit_char (y mod 10)])
       \<and> ((hour_tail t \<noteq> []) = (\<exists>y m d hh mi ss. t = PyDatetime y m d hh mi ss))"
proof -
  from month_codes_valid[OF assms] obtain code
    where c: "month_codes m = Some code" "length code = 3"
    by blast
  have 1: "\<exists>code. month_codes m = Some code \<and> length code = 3 \<and>
           dates_out (PyDate y m d) File s =
             Inr (s\<lparr>outfile := outfile s @ ''DATES\<newline>'' @ fmt02 d @ '' '' @ code @ '' ''
                    @ str_nat y @ '' /\<newline>'' @ ''/\<newline>\<newline>''\<rparr>) \<and>
           dates_out (PyDatetime y m d hh mi ss) File s =
             Inr (s\<lparr>outfile := outfile s @ ''DATES\<newline>'' @ fmt02 d @ '' '' @ code @ '' ''
                    @ str_nat y @ '' '' @ fmt02 hh @ '':'' @ fmt02 mi @ '':'' @ fmt02 ss
                    @ '' /\<newline>'' @ ''/\<newline>\<newline>''\<rparr>)"
    using c dates_out_date[OF c(1)] dates_out_datetime[OF c(1)] by blast
  have 2: "(hour_tail t \<noteq> []) = (\<exists>y m d hh mi ss. t = PyDatetime y m d hh mi ss)"
    by (cases t) (simp_all add: hour_tail_def)
  have 3: "d < 100 \<longrightarrow> fmt02 d = [digit_char (d div 10), digit_char (d mod 10)]"
    by (simp add: fmt02_lt100)
  have 4: "1000 \<le> y \<and> y < 10000 \<longrightarrow>
           str_nat y = [digit_char (y div 1000), digit_char (y div 100 mod 10),
                        digit_char (y div 10 mod 10), digit_char (y mod 10)]"
    by (simp add: str_nat_4)
  from 1 month_codes_table 3 4 2 show ?thesis
    by (intro conjI)
qed

theorem dates_out_format_witness:
  "(1::nat) \<le> 7 \<and> (7::nat) \<le> 12 \<and>
   dates_out (PyDate 2021 7 4) File no_output =
     Inr \<lparr>console = [], outfile = ''DATES\<newline>04 JLY 2021 /\<newline>/\<newline>\<newline>''\<rparr> \<and>
   dates_out (PyDatetime 2021 7 4 0 0 0) File no_output =
     Inr \<lparr>console = [], outfile = ''DATES\<newline>04 JLY 2021 00:00:00 /\<newline>/\<newline>\<newline>''\<rparr>"
proof -
  have h1: "(1::nat) \<le> 7" and h2: "(7::nat) \<le> 12" by simp_all
  have e: "month_codes 7 = Some ''JLY''" "fmt02 4 = ''04''" "fmt02 0 = ''00''"
    "str_nat 2021 = ''2021''"
    by (simp_all add: month_codes_def fmt02_lt100 str_nat_4 digit_chars)
  from dates_out_format[OF h1 h2, of 2021 4 no_output 0 0 0] show ?thesis
    by (simp add: e no_output_def)
qed

text \<open>
  C10. Whether the time is written depends on the type of the timestamp only: a datetime
  always gets the \<open>HH:MM:SS\<close> token, at midnight \<open>00:00:00\<close>, and a date never gets it.
  Every \<open>dates_out\<close> call of the loop over the time steps passes a date, so no date-stamp
  record of the schedule has the token.
\<close>

theorem dates_tail_by_type:
  "(month_codes m = Some code \<longrightarrow>
      dates_out (PyDatetime y m d 0 0 0) File s =
        Inr (s\<lparr>outfile := outfile s @ ''DATES\<newline>'' @ fmt02 d @ '' '' @ code @ '' ''
               @ str_nat y @ '' 00:00:00 /\<newline>/\<newline>\<newline>''\<rparr>)
      \<and> dates_out (PyDate y m d) File s =
        Inr (s\<lparr>outfile := outfile s @ ''DATES\<newline>'' @ fmt02 d @ '' '' @ code @ '' ''
               @ str_nat y @ '' /\<newline>/\<newline>\<newline>''\<rparr>))
   \<and> hour_tail (PyDatetime y m d hh mi ss) = fmt02 hh @ '':'' @ fmt02 mi @ '':'' @ fmt02 ss @ '' ''
   \<and> hour_tail (PyDate y m d) = []
   \<and> (\<forall>c \<in> set (timestep_loop flag timesteps production perf man_ops).
        \<forall>t. c = DatesOut t \<longrightarrow> (\<exists>y m d. t = PyDate y m d) \<and> hour_tail t = [])"
proof -
  have z: "fmt02 0 = ''00''" by (simp add: fmt02_lt100 digit_chars)
  have a: "\<And>t. DatesOut t \<in> set (timestep_loop flag timesteps production perf man_ops) \<Longrightarrow>
          (\<exists>y m d. t = PyDate y m d) \<and> hour_tail t = []"
    by (auto dest!: dates_timestep_loop simp: to_pydate_def hour_tail_def)
  have b: "month_codes m = Some code \<longrightarrow>
      dates_out (PyDatetime y m d 0 0 0) File s =
        Inr (s\<lparr>outfile := outfile s @ ''DATES\<newline>'' @ fmt02 d @ '' '' @ code @ '' ''
               @ str_nat y @ '' 00:00:00 /\<newline>/\<newline>\<newline>''\<rparr>)
      \<and> dates_out (PyDate y m d) File s =
        Inr (s\<lparr>outfile := outfile s @ ''DATES\<newline>'' @ fmt02 d @ '' '' @ code @ '' ''
               @ str_nat y @ '' /\<newline>/\<newline>\<newline>''\<rparr>)"
    by (simp add: dates_out_date dates_out_datetime z)
  from a b show ?thesis
    by (auto simp: hour_tail_def)
qed

theorem dates_tail_by_type_witness:
  "DatesOut (PyDate 2020 3 1)
     \<in> set (timestep_loop True (date_range_MS (2020, 1, 15) (2020, 3, 20)) [] [] [])
   \<and> hour_tail (PyDate 2020 3 1) = []
   \<and> month_codes 3 = Some ''MAR''
   \<and> dates_out (PyDatetime 2020 3 1 0 0 0) File no_output =
       Inr \<lparr>console = [], outfile = ''DATES\<newline>01 MAR 2020 00:00:00 /\<newline>/\<newline>\<newline>''\<rparr>"
proof -
  have m: "month_codes 3 = Some ''MAR''" by (simp add: month_codes_def)
  have e: "fmt02 (Suc 0) = ''01''" "str_nat 2020 = ''2020''"
    by (simp_all add: fmt02_lt100 str_nat_4 digit_chars)
  have r: "date_range_MS (2020, 1, 15) (2020, 3, 20) = [(2020, 2, 1), (2020, 3, 1)]"
    by (simp add: date_range_MS_def month_index_def month_start_def)
  have l: "DatesOut (PyDate 2020 3 1)
     \<in> set (timestep_loop True (date_range_MS (2020, 1, 15) (2020, 3, 20)) [] [] [])"
    unfolding r by (simp add: timestep_calls_def to_pydate_def)
  from dates_tail_by_type[where m = 3 and code = "''MAR''" and y = 2020 and d = 1
      and s = no_output and flag = True
      and timesteps = "date_range_MS (2020, 1, 15) (2020, 3, 20)"
      and production = "[]" and perf = "[]" and man_ops = "[]"] m l
  show ?thesis
    by (simp add: e no_output_def)
qed

section \<open>The head of a time step\<close>

lemma timestep_loop_False:
  "timestep_loop False timesteps production perf man_ops =
   concat (map (\<lambda>t. timestep_calls False t production perf man_ops) timesteps)"
  by (induction timesteps) simp_all

lemma slice_not_reset:
  "c \<in> set (slice_calls t production perf man_ops) \<Longrightarrow> c \<notin> set reset_calls"
  by (auto simp: slice_calls_def Let_def perf_call_def reset_calls_def prod_calls_eq split: if_splits)

text \<open>
  C3. The first pass of the loop is the initial period and every later pass is not. A pass
  that is not the first starts with one \<open>dates_out\<close> call followed by the three reset calls
  on the well \<open>*\<close> (production control \<open>SHUT\<close>, injection control \<open>SHUT\<close>, efficiency
  factor 1), and the calls that follow for the rows of the period contain no \<open>dates_out\<close>
  call and no reset call. The first pass makes no \<open>dates_out\<close> call and no reset call.
\<close>

theorem period_header:
  "timestep_loop True (t0 # later) production perf man_ops =
     timestep_calls True t0 production perf man_ops
     @ concat (map (\<lambda>t. timestep_calls False t production perf man_ops) later)
   \<and> timestep_calls False t production perf man_ops =
       DatesOut (to_pydate t) # reset_calls @ slice_calls t production perf man_ops
   \<and> reset_calls =
       [WconprodhOut (PStr ''*'') (Some (PStr ''SHUT'')) (Some (PStr ''LRAT''))
          None None None None None None None None None,
        WconinjhOut (PStr ''*'') (Some (PStr ''WATER'')) (Some (PStr ''SHUT''))
          None None None None None None None None None,
        WefacOut (PStr ''*'') (Some (PInt 1)) None]
   \<and> (\<forall>c \<in> set (slice_calls t production perf man_ops). \<not> is_dates c \<and> c \<notin> set reset_calls)
   \<and> timestep_calls True t production perf man_ops =
       map perf_call (filter (perf_date_before t) perf) @ slice_calls t production perf man_ops
   \<and> (\<forall>c \<in> set (timestep_calls True t production perf man_ops).
         \<not> is_dates c \<and> c \<notin> set reset_calls)"
proof -
  have 1: "\<forall>c \<in> set (slice_calls t production perf man_ops). \<not> is_dates c \<and> c \<notin> set reset_calls"
    using no_dates_slice_calls slice_not_reset by blast
  have 2: "timestep_calls True t production perf man_ops =
       map perf_call (filter (perf_date_before t) perf) @ slice_calls t production perf man_ops"
    by (simp add: timestep_calls_def)
  have 3: "\<forall>c \<in> set (map perf_call (filter (perf_date_before t) perf)).
         \<not> is_dates c \<and> c \<notin> set reset_calls"
    by (auto simp: perf_call_def reset_calls_def)
  have 4: "\<forall>c \<in> set (timestep_calls True t production perf man_ops).
         \<not> is_dates c \<and> c \<notin> set reset_calls"
    unfolding 2 using 1 3 by (metis Un_iff set_append)
  show ?thesis
    using 1 2 4 by (simp add: timestep_loop_False timestep_calls_def reset_calls_def)
qed

lemma ex_range: "date_range_MS (2020, 1, 15) (2020, 4, 20) = [(2020, 2, 1), (2020, 3, 1), (2020, 4, 1)]"
  by (simp add: date_range_MS_def month_index_def month_start_def)

theorem period_header_witness:
  "WconprodhOut (PStr ''W1'') (Some (PStr ''OPEN'')) (Some (PStr ''LRAT''))
      (Some (PFloat (Fin 5))) (Some (PFloat (Fin 0))) (Some (PFloat (Fin (5 / 2))))
      None None (Some (PStr ''*'')) (Some (PStr ''*'')) None None
     \<in> set (slice_calls (2020, 4, 1) [(ex_prod_row, Some ex_well)] [(Some ex_perf_row, ex_well)] [])
   \<and> WconprodhOut (PStr ''W1'') (Some (PStr ''OPEN'')) (Some (PStr ''LRAT''))
      (Some (PFloat (Fin 5))) (Some (PFloat (Fin 0))) (Some (PFloat (Fin (5 / 2))))
      None None (Some (PStr ''*'')) (Some (PStr ''*'')) None None \<notin> set reset_calls
   \<and> perf_call (Some ex_perf_row, ex_well)
     \<in> set (timestep_calls True (2020, 2, 1) [(ex_prod_row, Some ex_well)]
              [(Some ex_perf_row, ex_well)] [])
   \<and> perf_call (Some ex_perf_row, ex_well) \<notin> set reset_calls
   \<and> timestep_calls False (2020, 4, 1) [(ex_prod_row, Some ex_well)] [(Some ex_perf_row, ex_well)] []
       = DatesOut (PyDate 2020 4 1) # reset_calls
         @ slice_calls (2020, 4, 1) [(ex_prod_row, Some ex_well)] [(Some ex_perf_row, ex_well)] []"
proof -
  let ?c = "WconprodhOut (PStr ''W1'') (Some (PStr ''OPEN'')) (Some (PStr ''LRAT''))
      (Some (PFloat (Fin 5))) (Some (PFloat (Fin 0))) (Some (PFloat (Fin (5 / 2))))
      None None (Some (PStr ''*'')) (Some (PStr ''*'')) None None"
  have a: "?c \<in> set (slice_calls (2020, 4, 1) [(ex_prod_row, Some ex_well)]
                      [(Some ex_perf_row, ex_well)] [])"
    by (simp add: slice_calls_def prod_calls_eq ex_prod_row_def pressure_arg_def
        perf_date_at_def ex_perf_row_def)
  have b: "perf_call (Some ex_perf_row, ex_well)
     \<in> set (timestep_calls True (2020, 2, 1) [(ex_prod_row, Some ex_well)]
              [(Some ex_perf_row, ex_well)] [])"
    by (simp add: timestep_calls_def perf_date_before_def ex_perf_row_def less_prod_def)
  from period_header[where t = "(2020, 4, 1)" and production = "[(ex_prod_row, Some ex_well)]"
      and perf = "[(Some ex_perf_row, ex_well)]" and man_ops = "[]"]
    period_header[where t = "(2020, 2, 1)" and production = "[(ex_prod_row, Some ex_well)]"
      and perf = "[(Some ex_perf_row, ex_well)]" and man_ops = "[]"] a b
  show ?thesis
    by (simp add: to_pydate_def)
qed

section \<open>Joins and duplicates\<close>

lemma remdups_snoc: "remdups (ys @ [x]) = remdups (filter (\<lambda>y. y \<noteq> x) ys) @ [x]"
  by (induction ys) auto

lemma drop_duplicates_by_id:
  "drop_duplicates_by (\<lambda>x. x) seen xs = rev (remdups (rev (filter (\<lambda>x. x \<notin> set seen) xs)))"
proof (induction xs arbitrary: seen)
  case Nil
  then show ?case by simp
next
  case (Cons x xs)
  show ?case
  proof (cases "x \<in> set seen")
    case True
    then show ?thesis by (simp add: Cons.IH)
  next
    case False
    have f: "filter (\<lambda>y. y \<noteq> x) (rev (filter (\<lambda>x. x \<notin> set seen) xs))
        = rev (filter (\<lambda>xa. xa \<notin> set (x # seen)) xs)"
      by (simp add: rev_filter[symmetric] conj_commute)
    from False show ?thesis
      by (simp add: Cons.IH remdups_snoc f del: set_simps)
  qed
qed

lemma unique_first_seen: "unique xs = rev (remdups (rev xs))"
  by (simp add: unique_def drop_duplicates_by_id)

lemma set_unique: "set (unique xs) = set xs"
  by (simp add: unique_first_seen)

lemma set_merge_right:
  "((Some l, r) \<in> set (merge_right left_on right_on left right)) =
   (l \<in> set left \<and> r \<in> set right \<and> left_on l = right_on r)"
proof (induction right)
  case Nil
  then show ?case by (simp add: merge_right_def)
next
  case (Cons a right)
  have ih: "((Some l, r) \<in> set (concat (map (\<lambda>r. case filter (\<lambda>l. left_on l = right_on r) left of
          [] \<Rightarrow> [(None, r)] | ls \<Rightarrow> map (\<lambda>l. (Some l, r)) ls) right)))
      = (l \<in> set left \<and> r \<in> set right \<and> left_on l = right_on r)"
    using Cons.IH by (simp add: merge_right_def)
  have h: "((Some l, r) \<in> set (case filter (\<lambda>l. left_on l = right_on a) left of
          [] \<Rightarrow> [(None, a)] | ls \<Rightarrow> map (\<lambda>l. (Some l, a)) ls))
      = (l \<in> set left \<and> r = a \<and> left_on l = right_on r)"
  proof (cases "filter (\<lambda>l. left_on l = right_on a) left")
    case Nil
    then have "\<forall>l\<in>set left. left_on l \<noteq> right_on a" by (simp add: filter_empty_conv)
    with Nil show ?thesis by auto
  next
    case (Cons b bs)
    have "((Some l, r) \<in> set (map (\<lambda>l. (Some l, a)) (filter (\<lambda>l. left_on l = right_on a) left)))
        = (l \<in> set left \<and> r = a \<and> left_on l = right_on r)"
      by auto
    then show ?thesis unfolding Cons by simp
  qed
  show ?case
    using ih h by (auto simp: merge_right_def)
qed

lemma merge_right_unmatched:
  "map snd (filter (\<lambda>row. fst row = None) (merge_right left_on right_on left right)) =
   filter (\<lambda>r. right_on r \<notin> left_on ` set left) right"
proof (induction right)
  case Nil
  then show ?case by (simp add: merge_right_def)
next
  case (Cons r right)
  have ih: "map snd (filter (\<lambda>row. fst row = None)
      (concat (map (\<lambda>r. case filter (\<lambda>l. left_on l = right_on r) left of
          [] \<Rightarrow> [(None, r)] | ls \<Rightarrow> map (\<lambda>l. (Some l, r)) ls) right)))
    = filter (\<lambda>r. right_on r \<notin> left_on ` set left) right"
    using Cons.IH by (simp add: merge_right_def)
  show ?case
  proof (cases "filter (\<lambda>l. left_on l = right_on r) left")
    case Nil
    then have "right_on r \<notin> left_on ` set left"
      by (auto simp: filter_empty_conv)
    with Nil ih show ?thesis by (simp add: merge_right_def)
  next
    case (Cons l ls)
    then have "l \<in> set (filter (\<lambda>l. left_on l = right_on r) left)" by simp
    then have "right_on r \<in> left_on ` set left" by force
    with Cons ih show ?thesis by (simp add: merge_right_def comp_def)
  qed
qed

lemma filter_map_snd_comm:
  "map snd (filter (\<lambda>row. fst row = None) (filter (\<lambda>row. P (snd row)) xs))
   = filter P (map snd (filter (\<lambda>row. fst row = None) xs))"
  by (induction xs) auto

lemma perf_table_unmatched:
  "map snd (filter (\<lambda>row. fst row = None) (perf_table perf_kmb perf_tk well_table field))
   = wells_without_perf perf_kmb perf_tk well_table field"
proof -
  let ?m = "merge_right perf_well mer_name (preprocess_perf (unique (perf_kmb @ perf_tk)))
              well_table"
  have i: "perf_well ` set (preprocess_perf (unique (perf_kmb @ perf_tk)))
      = raw_perf_well ` set (perf_kmb @ perf_tk)"
    by (simp add: preprocess_perf_def set_unique image_image del: set_append)
  have "perf_table perf_kmb perf_tk well_table field
      = filter (\<lambda>row. field_name (snd row) = field) ?m"
    by (simp add: perf_table_def)
  then have "map snd (filter (\<lambda>row. fst row = None)
                 (perf_table perf_kmb perf_tk well_table field))
      = filter (\<lambda>w. field_name w = field) (map snd (filter (\<lambda>row. fst row = None) ?m))"
    using filter_map_snd_comm[of "\<lambda>w. field_name w = field" ?m] by simp
  also have "\<dots> = filter (\<lambda>w. field_name w = field)
      (filter (\<lambda>r. mer_name r \<notin> raw_perf_well ` set (perf_kmb @ perf_tk)) well_table)"
    by (simp only: merge_right_unmatched i)
  also have "\<dots> = wells_without_perf perf_kmb perf_tk well_table field"
    by (simp add: wells_without_perf_def conj_commute del: set_append)
  finally show ?thesis .
qed

lemma merge_right_matched:
  "filter (\<lambda>row. fst row \<noteq> None) (merge_right left_on right_on left right) =
   concat (map (\<lambda>r. map (\<lambda>l. (Some l, r)) (filter (\<lambda>l. left_on l = right_on r) left)) right)"
proof (induction right)
  case Nil
  then show ?case by (simp add: merge_right_def)
next
  case (Cons r right)
  let ?x = "case filter (\<lambda>l. left_on l = right_on r) left of
          [] \<Rightarrow> [(None, r)] | ls \<Rightarrow> map (\<lambda>l. (Some l, r)) ls"
  have c: "merge_right left_on right_on left (r # right)
      = ?x @ merge_right left_on right_on left right"
    by (simp add: merge_right_def)
  have h: "filter (\<lambda>row. fst row \<noteq> None) ?x
    = map (\<lambda>l. (Some l, r)) (filter (\<lambda>l. left_on l = right_on r) left)"
    by (cases "filter (\<lambda>l. left_on l = right_on r) left") (simp_all add: filter_map comp_def)
  show ?case
    unfolding c filter_append Cons.IH h by simp
qed

lemma filter_snd_const:
  "\<forall>row\<in>set xs. snd row = r \<Longrightarrow> filter (\<lambda>row. P (snd row)) xs = (if P r then xs else [])"
  by (induction xs) auto

lemma filter_merge_right:
  "filter (\<lambda>row. P (snd row)) (merge_right left_on right_on left right)
   = merge_right left_on right_on left (filter P right)"
proof (induction right)
  case Nil
  then show ?case by (simp add: merge_right_def)
next
  case (Cons r right)
  let ?x = "case filter (\<lambda>l. left_on l = right_on r) left of
          [] \<Rightarrow> [(None, r)] | ls \<Rightarrow> map (\<lambda>l. (Some l, r)) ls"
  have c: "\<And>rs. merge_right left_on right_on left (r # rs)
      = ?x @ merge_right left_on right_on left rs"
    by (simp add: merge_right_def)
  have "\<forall>row\<in>set ?x. snd row = r"
    by (auto split: list.splits)
  from filter_snd_const[OF this, of P]
  have h: "filter (\<lambda>row. P (snd row)) ?x = (if P r then ?x else [])" .
  show ?case
    unfolding c filter_append Cons.IH h by (simp add: c)
qed

lemma perf_table_matched:
  "filter (\<lambda>row. fst row \<noteq> None) (perf_table perf_kmb perf_tk well_table field) =
   concat (map (\<lambda>w. map (\<lambda>p. (Some p, w))
                        (filter (\<lambda>p. perf_well p = mer_name w)
                           (preprocess_perf (unique (perf_kmb @ perf_tk)))))
             (filter (\<lambda>w. field_name w = field) well_table))"
proof -
  let ?perf = "preprocess_perf (unique (perf_kmb @ perf_tk))"
  have "perf_table perf_kmb perf_tk well_table field
      = filter (\<lambda>row. field_name (snd row) = field)
          (merge_right perf_well mer_name ?perf well_table)"
    by (simp add: perf_table_def)
  also have "\<dots> = merge_right perf_well mer_name ?perf
      (filter (\<lambda>w. field_name w = field) well_table)"
    using filter_merge_right[of "\<lambda>w. field_name w = field" perf_well mer_name ?perf well_table]
    by simp
  finally show ?thesis
    by (simp only: merge_right_matched)
qed

section \<open>Perforations before the start date\<close>

lemma count_list_distinct: "distinct xs \<Longrightarrow> x \<in> set xs \<Longrightarrow> count_list xs x = 1"
  by (induction xs) (auto simp: count_list_0_iff)

lemma filter_before_later:
  assumes "\<forall>t\<in>set timesteps. \<forall>row. P row \<longrightarrow> \<not> perf_date_at t row"
  shows "filter P (perf_rows_emitted False timesteps perf) = []"
  using assms by (induction timesteps) (auto simp: filter_empty_conv)

lemma perf_call_row:
  "perf_call (Some p, w) =
     PerfOut (PStr (model_name w)) None (Some (PFloat (interval_start p)))
       (Some (PFloat (interval_end p))) (Some (PStr ''MD''))
       (Some (PStr (if perf_flag p then ''OPEN'' else ''SHUT'')))
       None None (Some (PFloat (Fin (16 / 100)))) None None None None None"
  by (simp add: perf_call_def)

lemma before_start_rows:
  assumes "valid_date start_date" and "date_range_MS start_date end_date = t0 # later"
  shows "perf_date_before start_date row \<Longrightarrow> perf_date_before t0 row"
    and "t \<in> set (t0 # later) \<Longrightarrow> perf_date_before start_date row \<Longrightarrow> \<not> perf_date_at t row"
proof -
  have ge: "\<And>t. t \<in> set (t0 # later) \<Longrightarrow> start_date \<le> t"
    using date_range_ge_start[OF assms(1), of _ end_date] assms(2) by simp
  show "perf_date_before start_date row \<Longrightarrow> perf_date_before t0 row"
    using ge[of t0] by (auto simp: perf_date_before_def split: option.splits)
  show "t \<in> set (t0 # later) \<Longrightarrow> perf_date_before start_date row \<Longrightarrow> \<not> perf_date_at t row"
    using ge[of t] by (auto simp: perf_date_before_def perf_date_at_def split: option.splits)
qed

lemma before_start_emitted:
  assumes "valid_date start_date" and "date_range_MS start_date end_date = t0 # later"
  shows "filter (perf_date_before start_date) (filter (perf_date_before t0) perf)
           = filter (perf_date_before start_date) perf"
    and "\<forall>t\<in>set (t0 # later).
           filter (perf_date_before start_date) (filter (perf_date_at t) perf) = []"
    and "filter (perf_date_before start_date) (perf_rows_emitted True (t0 # later) perf)
           = filter (perf_date_before start_date) perf"
proof -
  note b = before_start_rows[OF assms]
  show 1: "filter (perf_date_before start_date) (filter (perf_date_before t0) perf)
           = filter (perf_date_before start_date) perf"
    using b(1) by (auto intro: filter_cong)
  show 2: "\<forall>t\<in>set (t0 # later).
           filter (perf_date_before start_date) (filter (perf_date_at t) perf) = []"
  proof
    fix t assume t: "t \<in> set (t0 # later)"
    have "\<forall>row. perf_date_before start_date row \<longrightarrow> \<not> perf_date_at t row"
      using b(2)[OF t] by blast
    then show "filter (perf_date_before start_date) (filter (perf_date_at t) perf) = []"
      by (auto simp: filter_empty_conv)
  qed
  have 3: "filter (perf_date_before start_date) (perf_rows_emitted False later perf) = []"
    using b(2) by (intro filter_before_later) auto
  from 1 2 3 show "filter (perf_date_before start_date) (perf_rows_emitted True (t0 # later) perf)
           = filter (perf_date_before start_date) perf"
    by simp
qed

lemma before_start_count:
  assumes "valid_date start_date" and "date_range_MS start_date end_date = t0 # later"
    and "distinct perf" and "row \<in> set perf" and "perf_date_before start_date row"
  shows "count_list (perf_rows_emitted True (t0 # later) perf) row = 1"
    and "count_list (filter (perf_date_before t0) perf) row = 1"
proof -
  note b = before_start_rows[OF assms(1,2)]
  have c: "count_list perf row = 1" using assms(3,4) by (rule count_list_distinct)
  show 1: "count_list (filter (perf_date_before t0) perf) row = 1"
    using b(1)[OF assms(5)] c by (simp add: count_list_filter_True)
  have 2: "count_list (filter (perf_date_at t0) perf) row = 0"
    using b(2)[of t0 row] assms(5) by (simp add: count_list_filter_False)
  have 3: "count_list (perf_rows_emitted False later perf) row = 0"
    using b(2)[of _ row] assms(5) by (intro later_steps_none) simp
  from 1 2 3 show "count_list (perf_rows_emitted True (t0 # later) perf) row = 1"
    by simp
qed

lemma raw_before_start:
  assumes "preprocess_perf [r] = [p]" and "valid_date (raw_perf_date r)"
    and "raw_perf_date r < start_date"
  shows "perf_date_before start_date (Some p, w)"
proof -
  from assms(1) have pd: "perf_date p = (fst (raw_perf_date r), fst (snd (raw_perf_date r)), 1)"
    by (auto simp: preprocess_perf_def)
  from assms(2) have "perf_date p \<le> raw_perf_date r"
    unfolding pd by (intro floor_le) (simp add: valid_date_def)
  with assms(3) show ?thesis by (simp add: perf_date_before_def)
qed

text \<open>
  C4 (amended). The rows of the perforation table that carry a perforation are, for each
  cross-reference row of the field in table order, the perforation facts with its report
  name in file order (after the removal of repeated rows): a fact has one row for each
  cross-reference row of the field with its report name, and none when there is no such
  row. When the range of time steps is not empty, the rows of that table dated before the
  start date are all in the batch of the first time step, each once and in table order, and
  none of them is in the slice of the first or of a later time step; so each of them is
  passed to \<open>perf_out\<close> once in the first time step and never later. A fact dated
  before the start date gives rows dated before it. The \<open>perf_out\<close> calls of the loop
  are those of the rows listed by \<open>perf_rows_emitted\<close>, each with the model name of the
  well, the two depths of the interval, \<open>MD\<close>, the status \<open>OPEN\<close> or \<open>SHUT\<close> of the
  flag and the diameter 0.16.
\<close>

theorem perf_before_start_once:
  assumes "valid_date start_date" and "date_range_MS start_date end_date = t0 # later"
  shows "filter (perf_date_before start_date) (filter (perf_date_before t0) perf)
           = filter (perf_date_before start_date) perf
   \<and> (\<forall>t\<in>set (t0 # later).
           filter (perf_date_before start_date) (filter (perf_date_at t) perf) = [])
   \<and> filter (perf_date_before start_date) (perf_rows_emitted True (t0 # later) perf)
           = filter (perf_date_before start_date) perf
   \<and> (distinct perf \<and> row \<in> set perf \<and> perf_date_before start_date row \<longrightarrow>
         count_list (perf_rows_emitted True (t0 # later) perf) row = 1
         \<and> count_list (filter (perf_date_before t0) perf) row = 1)
   \<and> filter is_perf (timestep_loop True (t0 # later) production perf man_ops)
           = map perf_call (perf_rows_emitted True (t0 # later) perf)
   \<and> perf_call (Some p, w) =
         PerfOut (PStr (model_name w)) None (Some (PFloat (interval_start p)))
           (Some (PFloat (interval_end p))) (Some (PStr ''MD''))
           (Some (PStr (if perf_flag p then ''OPEN'' else ''SHUT'')))
           None None (Some (PFloat (Fin (16 / 100)))) None None None None None
   \<and> filter (\<lambda>row. fst row \<noteq> None) (perf_table perf_kmb perf_tk well_table field) =
         concat (map (\<lambda>w. map (\<lambda>p. (Some p, w))
                              (filter (\<lambda>p. perf_well p = mer_name w)
                                 (preprocess_perf (unique (perf_kmb @ perf_tk)))))
                   (filter (\<lambda>w. field_name w = field) well_table))
   \<and> (preprocess_perf [r] = [p] \<and> valid_date (raw_perf_date r)
         \<and> raw_perf_date r < start_date \<longrightarrow> perf_date_before start_date (Some p, w))"
proof -
  note e = before_start_emitted[OF assms, of perf]
  have c: "distinct perf \<and> row \<in> set perf \<and> perf_date_before start_date row \<longrightarrow>
         count_list (perf_rows_emitted True (t0 # later) perf) row = 1
         \<and> count_list (filter (perf_date_before t0) perf) row = 1"
    using before_start_count[OF assms] by blast
  have l: "filter is_perf (timestep_loop True (t0 # later) production perf man_ops)
           = map perf_call (perf_rows_emitted True (t0 # later) perf)"
    by (rule filter_is_perf_loop)
  have r: "preprocess_perf [r] = [p] \<and> valid_date (raw_perf_date r)
         \<and> raw_perf_date r < start_date \<longrightarrow> perf_date_before start_date (Some p, w)"
    using raw_before_start by blast
  from e(1) e(2) e(3) c l perf_call_row perf_table_matched r show ?thesis
    by (intro conjI)
qed

lemma ex_perf_table:
  "perf_table [ex_perf_raw] [] [ex_well] ''F'' = [(Some ex_perf_row, ex_well)]"
  by (simp add: perf_table_def unique_def preprocess_perf_def merge_right_def
      ex_perf_raw_def ex_perf_row_def ex_well_def)

theorem perf_before_start_once_witness:
  "valid_date (2020, 1, 15)
   \<and> date_range_MS (2020, 1, 15) (2020, 4, 20) = (2020, 2, 1) # [(2020, 3, 1), (2020, 4, 1)]
   \<and> perf_table [ex_perf_raw] [] [ex_well] ''F'' = [(Some ex_perf_row, ex_well)]
   \<and> preprocess_perf [ex_perf_raw] = [ex_perf_row]
   \<and> raw_perf_date ex_perf_raw < (2020, 1, 15)
   \<and> perf_date_before (2020, 1, 15) (Some ex_perf_row, ex_well)
   \<and> count_list (perf_rows_emitted True [(2020, 2, 1), (2020, 3, 1), (2020, 4, 1)]
        [(Some ex_perf_row, ex_well)]) (Some ex_perf_row, ex_well) = 1
   \<and> filter is_perf (timestep_loop True [(2020, 2, 1), (2020, 3, 1), (2020, 4, 1)]
        [(ex_prod_row, Some ex_well)] [(Some ex_perf_row, ex_well)] [])
       = [PerfOut (PStr ''W1'') None (Some (PFloat (Fin 1500))) (Some (PFloat (Fin 1510)))
            (Some (PStr ''MD'')) (Some (PStr ''OPEN'')) None None
            (Some (PFloat (Fin (16 / 100)))) None None None None None]"
proof -
  have h1: "valid_date (2020, 1, 15)" by (simp add: valid_date_def)
  have h2: "date_range_MS (2020, 1, 15) (2020, 4, 20)
      = (2020, 2, 1) # [(2020, 3, 1), (2020, 4, 1)]"
    by (rule ex_range)
  have h3: "preprocess_perf [ex_perf_raw] = [ex_perf_row]"
    by (simp add: preprocess_perf_def ex_perf_raw_def ex_perf_row_def)
  have h4: "valid_date (raw_perf_date ex_perf_raw)"
    by (simp add: valid_date_def ex_perf_raw_def)
  have h5: "raw_perf_date ex_perf_raw < (2020, 1, 15)"
    by (simp add: ex_perf_raw_def less_prod_def)
  note t = perf_before_start_once[OF h1 h2, where perf = "[(Some ex_perf_row, ex_well)]"
      and row = "(Some ex_perf_row, ex_well)" and r = ex_perf_raw and p = ex_perf_row
      and w = ex_well and production = "[(ex_prod_row, Some ex_well)]" and man_ops = "[]"]
  note b = t[THEN conjunct2, THEN conjunct2, THEN conjunct2, THEN conjunct2, THEN conjunct2,
      THEN conjunct2, THEN conjunct2, THEN mp, OF conjI[OF h3 conjI[OF h4 h5]]]
  have d: "distinct [(Some ex_perf_row, ex_well)]
      \<and> (Some ex_perf_row, ex_well) \<in> set [(Some ex_perf_row, ex_well)]
      \<and> perf_date_before (2020, 1, 15) (Some ex_perf_row, ex_well)"
    using b by simp
  note c = t[THEN conjunct2, THEN conjunct2, THEN conjunct2, THEN conjunct1, THEN mp, OF d,
      THEN conjunct1]
  note l = t[THEN conjunct2, THEN conjunct2, THEN conjunct2, THEN conjunct2, THEN conjunct1]
  have m: "map perf_call (perf_rows_emitted True [(2020, 2, 1), (2020, 3, 1), (2020, 4, 1)]
        [(Some ex_perf_row, ex_well)])
       = [PerfOut (PStr ''W1'') None (Some (PFloat (Fin 1500))) (Some (PFloat (Fin 1510)))
            (Some (PStr ''MD'')) (Some (PStr ''OPEN'')) None None
            (Some (PFloat (Fin (16 / 100)))) None None None None None]"
    by (simp add: perf_date_before_def perf_date_at_def perf_call_def ex_perf_row_def
        ex_well_def less_prod_def)
  from h1 h2 ex_perf_table h3 h5 b c l[unfolded m] show ?thesis
    by (intro conjI)
qed

text \<open>
  The claim C4 as stated fails: of two perforation facts dated before the start date, the one
  of a well that the cross-reference table does not list is never passed to \<open>perf_out\<close>,
  and the one whose report name the table lists twice is passed twice, once for each model
  name.
\<close>

theorem perf_before_start_counterexample:
  "raw_perf_date ex_perf_raw_A < (2020, 1, 15) \<and> raw_perf_date ex_perf_raw < (2020, 1, 15)
   \<and> perf_table [ex_perf_raw_A, ex_perf_raw] [] [ex_well, ex_well_twin] ''F''
       = [(Some ex_perf_row, ex_well), (Some ex_perf_row, ex_well_twin)]
   \<and> filter is_perf (timestep_loop True (date_range_MS (2020, 1, 15) (2020, 4, 20))
        [(ex_prod_row, Some ex_well)]
        (perf_table [ex_perf_raw_A, ex_perf_raw] [] [ex_well, ex_well_twin] ''F'') [])
       = [PerfOut (PStr ''W1'') None (Some (PFloat (Fin 1500))) (Some (PFloat (Fin 1510)))
            (Some (PStr ''MD'')) (Some (PStr ''OPEN'')) None None
            (Some (PFloat (Fin (16 / 100)))) None None None None None,
          PerfOut (PStr ''W2'') None (Some (PFloat (Fin 1500))) (Some (PFloat (Fin 1510)))
            (Some (PStr ''MD'')) (Some (PStr ''OPEN'')) None None
            (Some (PFloat (Fin (16 / 100)))) None None None None None]"
proof -
  have d: "raw_perf_date ex_perf_raw_A < (2020, 1, 15)" "raw_perf_date ex_perf_raw < (2020, 1, 15)"
    by (simp_all add: ex_perf_raw_A_def ex_perf_raw_def less_prod_def)
  have p: "perf_table [ex_perf_raw_A, ex_perf_raw] [] [ex_well, ex_well_twin] ''F''
       = [(Some ex_perf_row, ex_well), (Some ex_perf_row, ex_well_twin)]"
    by (simp add: perf_table_def unique_def preprocess_perf_def merge_right_def
        ex_perf_raw_A_def ex_perf_raw_def ex_perf_row_def ex_well_def ex_well_twin_def)
  have m: "map perf_call (perf_rows_emitted True [(2020, 2, 1), (2020, 3, 1), (2020, 4, 1)]
        [(Some ex_perf_row, ex_well), (Some ex_perf_row, ex_well_twin)])
       = [PerfOut (PStr ''W1'') None (Some (PFloat (Fin 1500))) (Some (PFloat (Fin 1510)))
            (Some (PStr ''MD'')) (Some (PStr ''OPEN'')) None None
            (Some (PFloat (Fin (16 / 100)))) None None None None None,
          PerfOut (PStr ''W2'') None (Some (PFloat (Fin 1500))) (Some (PFloat (Fin 1510)))
            (Some (PStr ''MD'')) (Some (PStr ''OPEN'')) None None
            (Some (PFloat (Fin (16 / 100)))) None None None None None]"
    by (simp add: perf_date_before_def perf_date_at_def perf_call_def ex_perf_row_def
        ex_well_def ex_well_twin_def less_prod_def)
  have l: "filter is_perf (timestep_loop True (date_range_MS (2020, 1, 15) (2020, 4, 20))
        [(ex_prod_row, Some ex_well)]
        (perf_table [ex_perf_raw_A, ex_perf_raw] [] [ex_well, ex_well_twin] ''F'') [])
       = map perf_call (perf_rows_emitted True [(2020, 2, 1), (2020, 3, 1), (2020, 4, 1)]
        [(Some ex_perf_row, ex_well), (Some ex_perf_row, ex_well_twin)])"
    unfolding p ex_range by (rule filter_is_perf_loop)
  from d p l[unfolded m] show ?thesis
    by (intro conjI)
qed

section \<open>The production rows\<close>

lemma fdiv_Fin_pos: "0 < y \<Longrightarrow> 0 \<le> x \<Longrightarrow> fdiv (Fin x) (Fin y) = Fin (x / y)"
  by (auto simp: fdiv_def is_zero_def is_inf_def)

lemma preprocess_prod_row_valid:
  assumes "1 \<le> fst (snd (raw_DATE r))" "fst (snd (raw_DATE r)) \<le> 12"
  shows "preprocess_prod_row r =
     Inr \<lparr>WELL = raw_WELL r, DATE = raw_DATE r,
           month_length = mdays ! fst (snd (raw_DATE r))
              + (if fst (snd (raw_DATE r)) = 2 \<and> isleap (fst (raw_DATE r)) then 1 else 0),
           OIL = fdiv (raw_OIL r) (raw_DAYS r),
           WATER = fdiv (raw_WATER r) (raw_DAYS r),
           GAS = fdiv (raw_GAS r) (raw_DAYS r),
           WINJ = fdiv (raw_WINJ r) (raw_DAYS r),
           DAYS = raw_DAYS r, BHP = raw_BHP r, THP = raw_THP r\<rparr>"
  using assms by (simp add: preprocess_prod_row_def monthrange_days_def)

lemma preprocess_prod_rows_valid:
  assumes "\<forall>r \<in> fst ` set df. 1 \<le> fst (snd (raw_DATE r)) \<and> fst (snd (raw_DATE r)) \<le> 12"
  shows "preprocess_prod_rows df =
     Inr (map (\<lambda>(r, x).
       (\<lparr>WELL = raw_WELL r, DATE = raw_DATE r,
           month_length = mdays ! fst (snd (raw_DATE r))
              + (if fst (snd (raw_DATE r)) = 2 \<and> isleap (fst (raw_DATE r)) then 1 else 0),
           OIL = fdiv (raw_OIL r) (raw_DAYS r),
           WATER = fdiv (raw_WATER r) (raw_DAYS r),
           GAS = fdiv (raw_GAS r) (raw_DAYS r),
           WINJ = fdiv (raw_WINJ r) (raw_DAYS r),
           DAYS = raw_DAYS r, BHP = raw_BHP r, THP = raw_THP r\<rparr>, x)) df)"
  using assms
proof (induction df)
  case Nil
  then show ?case by simp
next
  case (Cons a df)
  obtain r x where a: "a = (r, x)" by (cases a)
  from Cons.prems a have v: "1 \<le> fst (snd (raw_DATE r))" "fst (snd (raw_DATE r)) \<le> 12" by auto
  from Cons have ih: "preprocess_prod_rows df = Inr (map (\<lambda>(r, x).
       (\<lparr>WELL = raw_WELL r, DATE = raw_DATE r,
           month_length = mdays ! fst (snd (raw_DATE r))
              + (if fst (snd (raw_DATE r)) = 2 \<and> isleap (fst (raw_DATE r)) then 1 else 0),
           OIL = fdiv (raw_OIL r) (raw_DAYS r),
           WATER = fdiv (raw_WATER r) (raw_DAYS r),
           GAS = fdiv (raw_GAS r) (raw_DAYS r),
           WINJ = fdiv (raw_WINJ r) (raw_DAYS r),
           DAYS = raw_DAYS r, BHP = raw_BHP r, THP = raw_THP r\<rparr>, x)) df)" by simp
  show ?case
    by (simp add: a preprocess_prod_row_valid[OF v] ih)
qed

lemma preprocess_prod_valid:
  assumes "df \<noteq> []"
    and "\<forall>r \<in> fst ` set df. 1 \<le> fst (snd (raw_DATE r)) \<and> fst (snd (raw_DATE r)) \<le> 12"
  shows "preprocess_prod df =
     Inr (map (\<lambda>(r, x).
       (\<lparr>WELL = raw_WELL r, DATE = raw_DATE r,
           month_length = mdays ! fst (snd (raw_DATE r))
              + (if fst (snd (raw_DATE r)) = 2 \<and> isleap (fst (raw_DATE r)) then 1 else 0),
           OIL = fdiv (raw_OIL r) (raw_DAYS r),
           WATER = fdiv (raw_WATER r) (raw_DAYS r),
           GAS = fdiv (raw_GAS r) (raw_DAYS r),
           WINJ = fdiv (raw_WINJ r) (raw_DAYS r),
           DAYS = raw_DAYS r, BHP = raw_BHP r, THP = raw_THP r\<rparr>, x)) df)"
  using assms(1) preprocess_prod_rows_valid[OF assms(2)] by (simp add: preprocess_prod_def)

lemma month_lengths:
  "map (monthrange_days 2021) [1 ..< 13] =
     map Inr [31, 28, 31, 30, 31, 30, 31, 31, 30, 31, 30, 31]"
  "monthrange_days 2020 2 = Inr 29" "monthrange_days 1900 2 = Inr 28"
  "monthrange_days 2000 2 = Inr 29"
  by (simp_all add: monthrange_days_def mdays_def isleap_def upt_rec)

lemma ex_production_table:
  "production_table [ex_prod_raw] [] [ex_well] ''F'' = Inr [(ex_prod_row, Some ex_well)]"
  "production_table [ex_prod_raw] [] [ex_well, ex_well3] ''F'' = Inr [(ex_prod_row, Some ex_well)]"
  by (simp_all add: production_table_def merge_left_def preprocess_prod_def
      preprocess_prod_row_def monthrange_days_def mdays_def ex_prod_raw_def ex_prod_row_def
      ex_well_def ex_well3_def fdiv_Fin_pos)

text \<open>
  C5. On a table with at least one row, every row with a month from 1 to 12,
  \<open>preprocess_prod\<close> succeeds; it divides the OIL, WATER, GAS and WINJ volumes of each row
  by DAYS and sets \<open>month_length\<close> to the number of days of the row's month (29 for February
  in a leap year). On a table without rows it raises. The row with OIL 100, WATER 0, GAS 50,
  WINJ 0 and DAYS 20 in April becomes the row with rates 5, 0 and 5/2 and month length 30,
  for which the loop calls \<open>wconprodh_out\<close> with these rates and then \<open>wefac_out\<close> with the
  factor 2/3; the water rate 0 does not suppress the calls.
\<close>

theorem normalizer_rates:
  fixes df :: "(prod_raw \<times> 'x) list"
  assumes "df \<noteq> []"
    and "\<forall>r \<in> fst ` set df. 1 \<le> fst (snd (raw_DATE r)) \<and> fst (snd (raw_DATE r)) \<le> 12"
  shows "preprocess_prod df =
     Inr (map (\<lambda>(r, x).
       (\<lparr>WELL = raw_WELL r, DATE = raw_DATE r,
           month_length = mdays ! fst (snd (raw_DATE r))
              + (if fst (snd (raw_DATE r)) = 2 \<and> isleap (fst (raw_DATE r)) then 1 else 0),
           OIL = fdiv (raw_OIL r) (raw_DAYS r),
           WATER = fdiv (raw_WATER r) (raw_DAYS r),
           GAS = fdiv (raw_GAS r) (raw_DAYS r),
           WINJ = fdiv (raw_WINJ r) (raw_DAYS r),
           DAYS = raw_DAYS r, BHP = raw_BHP r, THP = raw_THP r\<rparr>, x)) df)
   \<and> preprocess_prod ([] :: (prod_raw \<times> 'x) list) = Inl ValueError
   \<and> map (monthrange_days 2021) [1 ..< 13] =
       map Inr [31, 28, 31, 30, 31, 30, 31, 31, 30, 31, 30, 31]
   \<and> monthrange_days 2020 2 = Inr 29
   \<and> preprocess_prod
        [(\<lparr>raw_WELL = w, raw_DATE = (y, 4, d), raw_OIL = Fin 100, raw_WATER = Fin 0,
           raw_GAS = Fin 50, raw_WINJ = Fin 0, raw_DAYS = Fin 20, raw_BHP = b, raw_THP = t\<rparr>, x)]
       = Inr [(\<lparr>WELL = w, DATE = (y, 4, d), month_length = 30, OIL = Fin 5, WATER = Fin 0,
                GAS = Fin (5 / 2), WINJ = Fin 0, DAYS = Fin 20, BHP = b, THP = t\<rparr>, x)]
   \<and> prod_calls \<lparr>WELL = w, DATE = (y, 4, d), month_length = 30, OIL = Fin 5, WATER = Fin 0,
                GAS = Fin (5 / 2), WINJ = Fin 0, DAYS = Fin 20, BHP = b, THP = t\<rparr>
       = [WconprodhOut (PStr w) (Some (PStr ''OPEN'')) (Some (PStr ''LRAT''))
            (Some (PFloat (Fin 5))) (Some (PFloat (Fin 0))) (Some (PFloat (Fin (5 / 2))))
            None None (Some (pressure_arg t)) (Some (pressure_arg b)) None None,
          WefacOut (PStr w) (Some (PFloat (Fin (2 / 3)))) None]"
proof -
  have 0: "preprocess_prod ([] :: (prod_raw \<times> 'x) list) = Inl ValueError"
    by (simp add: preprocess_prod_def)
  have 1: "preprocess_prod
        [(\<lparr>raw_WELL = w, raw_DATE = (y, 4, d), raw_OIL = Fin 100, raw_WATER = Fin 0,
           raw_GAS = Fin 50, raw_WINJ = Fin 0, raw_DAYS = Fin 20, raw_BHP = b, raw_THP = t\<rparr>, x)]
       = Inr [(\<lparr>WELL = w, DATE = (y, 4, d), month_length = 30, OIL = Fin 5, WATER = Fin 0,
                GAS = Fin (5 / 2), WINJ = Fin 0, DAYS = Fin 20, BHP = b, THP = t\<rparr>, x)]"
    by (simp add: preprocess_prod_def preprocess_prod_row_def monthrange_days_def mdays_def
        fdiv_Fin_pos)
  have 2: "prod_calls \<lparr>WELL = w, DATE = (y, 4, d), month_length = 30, OIL = Fin 5, WATER = Fin 0,
                GAS = Fin (5 / 2), WINJ = Fin 0, DAYS = Fin 20, BHP = b, THP = t\<rparr>
       = [WconprodhOut (PStr w) (Some (PStr ''OPEN'')) (Some (PStr ''LRAT''))
            (Some (PFloat (Fin 5))) (Some (PFloat (Fin 0))) (Some (PFloat (Fin (5 / 2))))
            None None (Some (pressure_arg t)) (Some (pressure_arg b)) None None,
          WefacOut (PStr w) (Some (PFloat (Fin (2 / 3)))) None]"
    by (simp add: prod_calls_eq fdiv_Fin_pos)
  from preprocess_prod_valid[OF assms] 0 month_lengths(1,2) 1 2 show ?thesis
    by (intro conjI)
qed

theorem normalizer_rates_witness:
  "[(ex_prod_raw, Some ex_well)] \<noteq> []
   \<and> fst ` set [(ex_prod_raw, Some ex_well)] = {ex_prod_raw}
   \<and> 1 \<le> fst (snd (raw_DATE ex_prod_raw)) \<and> fst (snd (raw_DATE ex_prod_raw)) \<le> 12
   \<and> preprocess_prod [(ex_prod_raw, Some ex_well)] = Inr [(ex_prod_row, Some ex_well)]
   \<and> prod_calls ex_prod_row
       = [WconprodhOut (PStr ''W1'') (Some (PStr ''OPEN'')) (Some (PStr ''LRAT''))
            (Some (PFloat (Fin 5))) (Some (PFloat (Fin 0))) (Some (PFloat (Fin (5 / 2))))
            None None (Some (PStr ''*'')) (Some (PStr ''*'')) None None,
          WefacOut (PStr ''W1'') (Some (PFloat (Fin (2 / 3)))) None]"
proof -
  have n: "[(ex_prod_raw, Some ex_well)] \<noteq> []" by simp
  have h: "\<forall>r \<in> fst ` set [(ex_prod_raw, Some ex_well)].
       1 \<le> fst (snd (raw_DATE r)) \<and> fst (snd (raw_DATE r)) \<le> 12"
    by (simp add: ex_prod_raw_def)
  note t = normalizer_rates[OF n h, where w = "''W1''" and y = 2020 and d = 1 and b = "Fin 0"
      and t = "Fin 0" and x = "Some ex_well"]
  note a = t[THEN conjunct2, THEN conjunct2, THEN conjunct2, THEN conjunct2, THEN conjunct1]
  note b = t[THEN conjunct2, THEN conjunct2, THEN conjunct2, THEN conjunct2, THEN conjunct2]
  from a b show ?thesis
    by (simp add: ex_prod_raw_def ex_prod_row_def pressure_arg_def)
qed




section \<open>Single-line records\<close>

lemma wconprodh_text:
  "outfile (wconprodh_out fstr a1 a2 a3 a4 a5 a6 a7 a8 a9 a10 a11 a12 File s) =
   outfile s @ single_line_text fstr ''WCONHIST''
     [a1, arg (PStr ''SHUT'') a2, arg (PStr ''LRAT'') a3, arg PNone a4, arg PNone a5,
      arg PNone a6, arg PNone a7, arg PNone a8, arg PNone a9, arg PNone a10, arg PNone a11,
      arg PNone a12]"
  unfolding wconprodh_out_def Let_def outfile_write_File foldl_arg_step single_line_text_def
  by simp

lemma wconinjh_text:
  "outfile (wconinjh_out fstr a1 a2 a3 a4 a5 a6 a7 a8 a9 a10 a11 a12 File s) =
   outfile s @ single_line_text fstr ''WCONINJH''
     [a1, arg (PStr ''WATER'') a2, arg (PStr ''SHUT'') a3, arg PNone a4, arg PNone a5,
      arg PNone a6, arg PNone a7, arg PNone a8, arg PNone a9, arg PNone a10, arg PNone a11,
      arg (PStr ''RATE'') a12]"
  unfolding wconinjh_out_def Let_def outfile_write_File foldl_arg_step single_line_text_def
  by simp

lemma wefac_text:
  "outfile (wefac_out fstr a1 a2 a3 File s) =
   outfile s @ single_line_text fstr ''WEFAC'' [a1, arg (PInt 1) a2, arg PNone a3]"
  unfolding wefac_out_def Let_def outfile_write_File foldl_arg_step single_line_text_def
  by simp

lemma perf_text:
  "outfile (perf_out fstr a1 a2 a3 a4 a5 a6 a7 a8 a9 a10 a11 a12 a13 a14 File s) =
   outfile s @ single_line_text fstr ''COMPDATMD''
     [a1, arg PNone a2, arg PNone a3, arg PNone a4, arg PNone a5, arg PNone a6, arg PNone a7,
      arg PNone a8, arg PNone a9, arg PNone a10, arg (PInt 0) a11, arg PNone a12,
      arg (PInt 1) a13, arg PNone a14]"
  unfolding perf_out_def Let_def outfile_write_File foldl_arg_step single_line_text_def
  by simp

lemma specs_text:
  "outfile (specs_out fstr a1 a2 a3 a4 a5 a6 a7 a8 a9 a10 a11 a12 a13 File s) =
   outfile s @ single_line_text fstr ''WELSPECS''
     [a1, arg PNone a2, arg PNone a3, arg PNone a4, arg PNone a5, arg (PStr ''LIQ'') a6,
      arg PNone a7, arg PNone a8, arg PNone a9, arg PNone a10, arg PNone a11, arg PNone a12,
      arg PNone a13]"
  unfolding specs_out_def Let_def outfile_write_File foldl_specs_step single_line_text_def
  by simp

lemma arg_line_tokens_single:
  assumes "CHR ''\<newline>'' \<notin> set name"
    and "\<forall>v\<in>set args. CHR '' '' \<notin> set (token fstr v) \<and> CHR ''\<newline>'' \<notin> set (token fstr v)"
  shows "arg_line_tokens (single_line_text fstr name args) = map (token fstr) args"
proof -
  from assms(2) have nl: "\<forall>v\<in>set args. CHR ''\<newline>'' \<notin> set (token fstr v)" by blast
  from assms(2) have sp: "\<forall>t\<in>set (map (token fstr) args). CHR '' '' \<notin> set t" by simp
  have c: "concat (map (\<lambda>v. token fstr v @ '' '') args)
      = concat (map (\<lambda>t. t @ [CHR '' '']) (map (token fstr) args))"
    by (simp add: comp_def)
  have "split_on CHR '' '' (concat (map (\<lambda>v. token fstr v @ '' '') args) @ ''/'')
      = map (token fstr) args @ [''/'']"
    unfolding c split_on_concat[OF sp] by simp
  then show ?thesis
    by (simp add: arg_line_tokens_def text_lines_single[OF assms(1) nl])
qed

lemma str_int_small:
  "str_int 0 = ''0''" "str_int 1 = ''1''" "str_int 2 = ''2''" "str_int 5 = ''5''"
  by (simp_all add: str_int_def str_nat_lt10 digit_chars)

text \<open>
  C2 (amended). A single-line record is written as the keyword name on a line; then one
  argument line made of the positional tokens, each followed by a space, and closed by a
  slash on the same line; then a line with only a slash; then an empty line. Every position
  has a token: the wildcard \<open>*\<close> for a parameter bound to \<open>None\<close>, the text of the value
  otherwise, and a parameter left out by the caller is bound to the default of the
  signature (\<open>None\<close> for most, but \<open>SHUT\<close>, \<open>LRAT\<close>, \<open>WATER\<close>, \<open>RATE\<close>, \<open>LIQ\<close>, 0 or 1
  for some).
\<close>

theorem single_line_layout:
  "outfile (wconprodh_out fstr a1 a2 a3 a4 a5 a6 a7 a8 a9 a10 a11 a12 File s) =
     outfile s @ single_line_text fstr ''WCONHIST''
       [a1, arg (PStr ''SHUT'') a2, arg (PStr ''LRAT'') a3, arg PNone a4, arg PNone a5,
        arg PNone a6, arg PNone a7, arg PNone a8, arg PNone a9, arg PNone a10, arg PNone a11,
        arg PNone a12]
   \<and> outfile (wconinjh_out fstr a1 a2 a3 a4 a5 a6 a7 a8 a9 a10 a11 a12 File s) =
     outfile s @ single_line_text fstr ''WCONINJH''
       [a1, arg (PStr ''WATER'') a2, arg (PStr ''SHUT'') a3, arg PNone a4, arg PNone a5,
        arg PNone a6, arg PNone a7, arg PNone a8, arg PNone a9, arg PNone a10, arg PNone a11,
        arg (PStr ''RATE'') a12]
   \<and> outfile (wefac_out fstr a1 a2 a3 File s) =
     outfile s @ single_line_text fstr ''WEFAC'' [a1, arg (PInt 1) a2, arg PNone a3]
   \<and> outfile (perf_out fstr a1 a2 a3 a4 a5 a6 a7 a8 a9 a10 a11 a12 a13 a14 File s) =
     outfile s @ single_line_text fstr ''COMPDATMD''
       [a1, arg PNone a2, arg PNone a3, arg PNone a4, arg PNone a5, arg PNone a6, arg PNone a7,
        arg PNone a8, arg PNone a9, arg PNone a10, arg (PInt 0) a11, arg PNone a12,
        arg (PInt 1) a13, arg PNone a14]
   \<and> outfile (specs_out fstr a1 a2 a3 a4 a5 a6 a7 a8 a9 a10 a11 a12 a13 File s) =
     outfile s @ single_line_text fstr ''WELSPECS''
       [a1, arg PNone a2, arg PNone a3, arg PNone a4, arg PNone a5, arg (PStr ''LIQ'') a6,
        arg PNone a7, arg PNone a8, arg PNone a9, arg PNone a10, arg PNone a11, arg PNone a12,
        arg PNone a13]
   \<and> (CHR ''\<newline>'' \<notin> set name \<and> (\<forall>v\<in>set args. CHR ''\<newline>'' \<notin> set (token fstr v)) \<longrightarrow>
        text_lines (single_line_text fstr name args) =
          [name, concat (map (\<lambda>v. token fstr v @ '' '') args) @ ''/'', ''/'', ''''])
   \<and> token fstr PNone = ''*'' \<and> (v \<noteq> PNone \<longrightarrow> token fstr v = py_str fstr v)
   \<and> arg dflt None = dflt \<and> arg dflt (Some v) = v"
proof -
  have l: "CHR ''\<newline>'' \<notin> set name \<and> (\<forall>v\<in>set args. CHR ''\<newline>'' \<notin> set (token fstr v)) \<longrightarrow>
        text_lines (single_line_text fstr name args) =
          [name, concat (map (\<lambda>v. token fstr v @ '' '') args) @ ''/'', ''/'', '''']"
    using text_lines_single by blast
  have t: "token fstr PNone = ''*''" "v \<noteq> PNone \<longrightarrow> token fstr v = py_str fstr v"
    by (simp_all add: token_def)
  have a: "arg dflt None = dflt" "arg dflt (Some v) = v" by (simp_all add: arg_def)
  from wconprodh_text wconinjh_text wefac_text perf_text specs_text l t a show ?thesis
    by (intro conjI)
qed

theorem single_line_layout_witness:
  "CHR ''\<newline>'' \<notin> set ''COMPDATMD''
   \<and> text_lines (outfile (perf_out ex_fstr (PStr ''W1'') None (Some (PInt 1500)) (Some (PInt 1510))
        (Some (PStr ''MD'')) (Some (PStr ''OPEN'')) None None (Some (PStr ''0.16'')) None None
        None None None File no_output))
     = [''COMPDATMD'', ''W1 * 1500 1510 MD OPEN * * 0.16 * 0 * 1 * /'', ''/'', '''']"
proof -
  have e: "str_int 1500 = ''1500''" "str_int 1510 = ''1510''"
    by (simp_all add: str_int_def str_nat_4 digit_chars)
  from single_line_layout[where fstr = ex_fstr and name = "''COMPDATMD''" and s = no_output
      and ?a1.0 = "PStr ''W1''" and ?a2.0 = None and ?a3.0 = "Some (PInt 1500)"
      and ?a4.0 = "Some (PInt 1510)" and ?a5.0 = "Some (PStr ''MD'')"
      and ?a6.0 = "Some (PStr ''OPEN'')" and ?a7.0 = None and ?a8.0 = None
      and ?a9.0 = "Some (PStr ''0.16'')" and ?a10.0 = None and ?a11.0 = None
      and ?a12.0 = None and ?a13.0 = None and ?a14.0 = None
      and args = "[PStr ''W1'', PNone, PInt 1500, PInt 1510, PStr ''MD'', PStr ''OPEN'', PNone,
                   PNone, PStr ''0.16'', PNone, PInt 0, PNone, PInt 1, PNone]"]
  show ?thesis
    by (simp add: no_output_def arg_def token_def e str_int_small)
qed

text \<open>
  The claim C2 as stated fails: the first slash ends the argument line instead of standing
  on a line of its own, so the record has one slash-only line, and the unset status and
  control mode are written as \<open>SHUT\<close> and \<open>LRAT\<close>, not as wildcards.
\<close>

theorem two_slash_lines_counterexample:
  "text_lines (outfile (wconprodh_out ex_fstr (PStr ''W1'') None None None None None None None
        None None None None File no_output))
     = [''WCONHIST'', ''W1 SHUT LRAT * * * * * * * * * /'', ''/'', '''']
   \<and> drop 2 (text_lines (outfile (wconprodh_out ex_fstr (PStr ''W1'') None None None None None
        None None None None None None File no_output))) \<noteq> [''/'', ''/'', '''']"
proof -
  have t: "outfile (wconprodh_out ex_fstr (PStr ''W1'') None None None None None None
        None None None None None File no_output)
     = single_line_text ex_fstr ''WCONHIST''
         [PStr ''W1'', PStr ''SHUT'', PStr ''LRAT'', PNone, PNone, PNone, PNone, PNone, PNone,
          PNone, PNone, PNone]"
    by (simp add: wconprodh_text no_output_def arg_def)
  have "text_lines (single_line_text ex_fstr ''WCONHIST''
         [PStr ''W1'', PStr ''SHUT'', PStr ''LRAT'', PNone, PNone, PNone, PNone, PNone, PNone,
          PNone, PNone, PNone])
     = [''WCONHIST'', ''W1 SHUT LRAT * * * * * * * * * /'', ''/'', '''']"
    by (subst text_lines_single) (simp_all add: token_def)
  then show ?thesis unfolding t by simp
qed

text \<open>
  C9 (amended). When no token holds a space or a newline, the tokens of the argument line
  are the tokens of the bound parameters, position by position. If every parameter holds a
  value other than \<open>None\<close> whose text is not \<open>*\<close>, no token is the wildcard; every
  parameter bound to \<open>None\<close> has the wildcard at its position. With all optional arguments
  given the parameters are the arguments; with all of them left out they are the defaults
  of the signature, which are \<open>None\<close> except for status and control mode of
  \<open>wconprodh_out\<close> and the phase of \<open>specs_out\<close>.
\<close>

theorem wildcard_positions:
  assumes "CHR ''\<newline>'' \<notin> set name"
    and "\<forall>v\<in>set args. CHR '' '' \<notin> set (token fstr v) \<and> CHR ''\<newline>'' \<notin> set (token fstr v)"
  shows "arg_line_tokens (single_line_text fstr name args) = map (token fstr) args
   \<and> ((\<forall>v\<in>set args. v \<noteq> PNone \<and> py_str fstr v \<noteq> ''*'') \<longrightarrow>
        ''*'' \<notin> set (arg_line_tokens (single_line_text fstr name args)))
   \<and> (\<forall>i<length args. args ! i = PNone \<longrightarrow>
        arg_line_tokens (single_line_text fstr name args) ! i = ''*'')
   \<and> outfile (wconprodh_out fstr a1 (Some a2) (Some a3) (Some a4) (Some a5) (Some a6)
        (Some a7) (Some a8) (Some a9) (Some a10) (Some a11) (Some a12) File s) =
       outfile s @ single_line_text fstr ''WCONHIST''
         [a1, a2, a3, a4, a5, a6, a7, a8, a9, a10, a11, a12]
   \<and> outfile (specs_out fstr a1 (Some a2) (Some a3) (Some a4) (Some a5) (Some a6)
        (Some a7) (Some a8) (Some a9) (Some a10) (Some a11) (Some a12) (Some a13) File s) =
       outfile s @ single_line_text fstr ''WELSPECS''
         [a1, a2, a3, a4, a5, a6, a7, a8, a9, a10, a11, a12, a13]
   \<and> outfile (wconprodh_out fstr a1 None None None None None None None None None None None
        File s) =
       outfile s @ single_line_text fstr ''WCONHIST''
         [a1, PStr ''SHUT'', PStr ''LRAT'', PNone, PNone, PNone, PNone, PNone, PNone, PNone,
          PNone, PNone]
   \<and> outfile (specs_out fstr a1 None None None None None None None None None None None None
        File s) =
       outfile s @ single_line_text fstr ''WELSPECS''
         [a1, PNone, PNone, PNone, PNone, PStr ''LIQ'', PNone, PNone, PNone, PNone, PNone,
          PNone, PNone]"
proof -
  note tk = arg_line_tokens_single[OF assms]
  have 1: "(\<forall>v\<in>set args. v \<noteq> PNone \<and> py_str fstr v \<noteq> ''*'') \<longrightarrow>
        ''*'' \<notin> set (arg_line_tokens (single_line_text fstr name args))"
    unfolding tk by (auto simp: token_def)
  have 2: "\<forall>i<length args. args ! i = PNone \<longrightarrow>
        arg_line_tokens (single_line_text fstr name args) ! i = ''*''"
    unfolding tk by (simp add: token_def)
  show ?thesis
    using tk 1 2 by (simp add: wconprodh_text specs_text arg_def)
qed

theorem wildcard_positions_witness:
  "arg_line_tokens (outfile (wconprodh_out ex_fstr (PStr ''W1'') (Some (PStr ''OPEN''))
      (Some (PStr ''LRAT'')) (Some (PInt 5)) (Some (PInt 0)) (Some (PInt 2)) (Some (PInt 1))
      (Some (PInt 0)) (Some (PInt 2)) (Some (PInt 5)) (Some (PInt 0)) (Some (PInt 0))
      File no_output))
     = [''W1'', ''OPEN'', ''LRAT'', ''5'', ''0'', ''2'', ''1'', ''0'', ''2'', ''5'', ''0'', ''0'']
   \<and> arg_line_tokens (single_line_text ex_fstr ''WELSPECS''
        [PStr ''W1'', PNone, PNone, PNone, PNone, PNone, PNone, PNone, PNone, PNone, PNone,
         PNone, PNone])
     = [''W1'', ''*'', ''*'', ''*'', ''*'', ''*'', ''*'', ''*'', ''*'', ''*'', ''*'', ''*'', ''*'']"
proof -
  have n: "CHR ''\<newline>'' \<notin> set ''WCONHIST''" "CHR ''\<newline>'' \<notin> set ''WELSPECS''" by simp_all
  have h1: "\<forall>v\<in>set [PStr ''W1'', PStr ''OPEN'', PStr ''LRAT'', PInt 5, PInt 0, PInt 2, PInt 1,
                      PInt 0, PInt 2, PInt 5, PInt 0, PInt 0].
      CHR '' '' \<notin> set (token ex_fstr v) \<and> CHR ''\<newline>'' \<notin> set (token ex_fstr v)"
    by (simp add: token_def str_int_small)
  have h2: "\<forall>v\<in>set [PStr ''W1'', PNone, PNone, PNone, PNone, PNone, PNone, PNone, PNone, PNone,
                      PNone, PNone, PNone].
      CHR '' '' \<notin> set (token ex_fstr v) \<and> CHR ''\<newline>'' \<notin> set (token ex_fstr v)"
    by (simp add: token_def)
  from wildcard_positions[OF n(1) h1, where ?a1.0 = "PStr ''W1''" and ?a2.0 = "PStr ''OPEN''"
      and ?a3.0 = "PStr ''LRAT''" and ?a4.0 = "PInt 5" and ?a5.0 = "PInt 0" and ?a6.0 = "PInt 2"
      and ?a7.0 = "PInt 1" and ?a8.0 = "PInt 0" and ?a9.0 = "PInt 2" and ?a10.0 = "PInt 5"
      and ?a11.0 = "PInt 0" and ?a12.0 = "PInt 0" and s = no_output]
    wildcard_positions[OF n(2) h2]
  show ?thesis
    by (simp add: no_output_def token_def str_int_small)
qed

text \<open>
  The claim C9 as stated fails: with every optional argument given, two of them the text
  \<open>*\<close> that the schedule script itself passes for a pressure that is not above 0, the line
  has wildcards; with every optional argument left out, the positions of status and control
  mode (and of the phase in \<open>WELSPECS\<close>) hold the defaults, not wildcards.
\<close>

theorem wildcard_positions_counterexample:
  "arg_line_tokens (outfile (wconprodh_out ex_fstr (PStr ''W1'') (Some (PStr ''OPEN''))
      (Some (PStr ''LRAT'')) (Some (PInt 5)) (Some (PInt 0)) (Some (PInt 2)) (Some (PInt 1))
      (Some (PInt 0)) (Some (pressure_arg (Fin 0))) (Some (pressure_arg (Fin 0)))
      (Some (PInt 0)) (Some (PInt 0)) File no_output))
     = [''W1'', ''OPEN'', ''LRAT'', ''5'', ''0'', ''2'', ''1'', ''0'', ''*'', ''*'', ''0'', ''0'']
   \<and> arg_line_tokens (outfile (wconprodh_out ex_fstr (PStr ''W1'') None None None None None
        None None None None None None File no_output))
     = [''W1'', ''SHUT'', ''LRAT'', ''*'', ''*'', ''*'', ''*'', ''*'', ''*'', ''*'', ''*'', ''*'']
   \<and> arg_line_tokens (outfile (specs_out ex_fstr (PStr ''W1'') None None None None None
        None None None None None None None File no_output))
     = [''W1'', ''*'', ''*'', ''*'', ''*'', ''LIQ'', ''*'', ''*'', ''*'', ''*'', ''*'', ''*'', ''*'']"
  unfolding wconprodh_text specs_text
  by (simp add: no_output_def arg_def pressure_arg_def)
     (intro conjI; subst arg_line_tokens_single; simp add: token_def str_int_small)

section \<open>Running the calls\<close>

lemma run_calls_ok:
  assumes "\<forall>t. DatesOut t \<in> set cs \<longrightarrow> 1 \<le> ts_month t \<and> ts_month t \<le> 12"
  shows "fst (run_calls fstr cs s) = None"
  using assms
proof (induction cs arbitrary: s)
  case Nil
  then show ?case by simp
next
  case (Cons c cs)
  have "\<exists>s'. exec_call fstr c s = Inr s'"
  proof (cases c)
    case (DatesOut t)
    with Cons.prems have "1 \<le> ts_month t" "ts_month t \<le> 12" by auto
    from month_codes_valid[OF this] obtain code where "month_codes (ts_month t) = Some code"
      by blast
    then show ?thesis by (simp add: DatesOut dates_out_def)
  qed simp_all
  then obtain s' where "exec_call fstr c s = Inr s'" by blast
  with Cons show ?case by simp
qed

lemma timestep_loop_runs:
  "fst (run_calls fstr (timestep_loop flag (date_range_MS start_date end_date)
          production perf man_ops) s) = None"
proof (rule run_calls_ok, intro allI impI)
  fix t
  assume "DatesOut t \<in> set (timestep_loop flag (date_range_MS start_date end_date)
          production perf man_ops)"
  from dates_timestep_loop[OF this] obtain n where "t = to_pydate (month_start n)"
    by (auto simp: date_range_MS_def Let_def)
  then show "1 \<le> ts_month t \<and> ts_month t \<le> 12"
    by (simp add: to_pydate_def month_start_def)
qed

section \<open>The trajectory records\<close>


















section \<open>Wells without perforations\<close>

lemma main_sch_cases:
  assumes "production_table production_kmb production_tk well_table field = Inr production"
  shows "(1 < length (wells_without_perf perf_kmb perf_tk well_table field) \<longrightarrow>
          main_sch fstr production_kmb production_tk perf_kmb perf_tk man_ops_csv well_table
            start_date end_date field s
          = (Some (AssertionError
               (map model_name (wells_without_perf perf_kmb perf_tk well_table field))), s))
   \<and> (length (wells_without_perf perf_kmb perf_tk well_table field) \<le> 1 \<longrightarrow>
          main_sch fstr production_kmb production_tk perf_kmb perf_tk man_ops_csv well_table
            start_date end_date field s
          = run_calls fstr
              (timestep_loop True (date_range_MS start_date end_date) production
                 (perf_table perf_kmb perf_tk well_table field)
                 (filter (\<lambda>row. manop_field row = field) man_ops_csv))
              (open_w s)
          \<and> fst (main_sch fstr production_kmb production_tk perf_kmb perf_tk man_ops_csv
                   well_table start_date end_date field s) = None)"
proof -
  let ?orph = "filter (\<lambda>row. fst row = None) (perf_table perf_kmb perf_tk well_table field)"
  have m: "map (\<lambda>row. model_name (snd row)) ?orph
      = map model_name (wells_without_perf perf_kmb perf_tk well_table field)"
    unfolding perf_table_unmatched[symmetric] by (simp add: comp_def)
  have l: "length ?orph = length (wells_without_perf perf_kmb perf_tk well_table field)"
    unfolding perf_table_unmatched[symmetric] by simp
  show ?thesis
    using timestep_loop_runs[of fstr True start_date end_date production
        "perf_table perf_kmb perf_tk well_table field"
        "filter (\<lambda>row. manop_field row = field) man_ops_csv" "open_w s"]
    by (simp add: main_sch_def assms Let_def m l[symmetric] del: length_filter_conv_card)
qed

text \<open>
  C6 (amended). When the production table has been built, the check before the output file
  is opened counts the rows of the cross-reference table, within the selected field, whose
  report name no perforation row carries. With two or more such rows the script raises an
  assertion error that lists their model names, and the output is untouched; with at most
  one it opens the file, runs the loop over the time steps and ends without an error.
  Perforation rows of wells that the cross-reference table does not list are not counted.
\<close>

theorem wells_without_perforations:
  assumes "production_table production_kmb production_tk well_table field = Inr production"
  shows "(1 < length (wells_without_perf perf_kmb perf_tk well_table field) \<longrightarrow>
          main_sch fstr production_kmb production_tk perf_kmb perf_tk man_ops_csv well_table
            start_date end_date field s
          = (Some (AssertionError
               (map model_name (wells_without_perf perf_kmb perf_tk well_table field))), s))
   \<and> (length (wells_without_perf perf_kmb perf_tk well_table field) \<le> 1 \<longrightarrow>
          main_sch fstr production_kmb production_tk perf_kmb perf_tk man_ops_csv well_table
            start_date end_date field s
          = run_calls fstr
              (timestep_loop True (date_range_MS start_date end_date) production
                 (perf_table perf_kmb perf_tk well_table field)
                 (filter (\<lambda>row. manop_field row = field) man_ops_csv))
              (open_w s)
          \<and> fst (main_sch fstr production_kmb production_tk perf_kmb perf_tk man_ops_csv
                   well_table start_date end_date field s) = None)"
  using main_sch_cases[OF assms] .

theorem wells_without_perforations_witness:
  "production_table [ex_prod_raw] [] [ex_well, ex_well3] ''F'' = Inr [(ex_prod_row, Some ex_well)]
   \<and> wells_without_perf [ex_perf_raw_A] [] [ex_well, ex_well3] ''F'' = [ex_well, ex_well3]
   \<and> main_sch ex_fstr [ex_prod_raw] [] [ex_perf_raw_A] [] [] [ex_well, ex_well3]
        (2020, 1, 15) (2020, 4, 20) ''F'' no_output
       = (Some (AssertionError [''W1'', ''W3'']), no_output)
   \<and> wells_without_perf [ex_perf_raw] [] [ex_well, ex_well3] ''F'' = [ex_well3]
   \<and> fst (main_sch ex_fstr [ex_prod_raw] [] [ex_perf_raw] [] [] [ex_well, ex_well3]
            (2020, 1, 15) (2020, 4, 20) ''F'' no_output) = None"
proof -
  have h: "production_table [ex_prod_raw] [] [ex_well, ex_well3] ''F''
      = Inr [(ex_prod_row, Some ex_well)]"
    by (rule ex_production_table(2))
  have w2: "wells_without_perf [ex_perf_raw_A] [] [ex_well, ex_well3] ''F'' = [ex_well, ex_well3]"
    by (simp add: wells_without_perf_def ex_well_def ex_well3_def ex_perf_raw_A_def)
  have w1: "wells_without_perf [ex_perf_raw] [] [ex_well, ex_well3] ''F'' = [ex_well3]"
    by (simp add: wells_without_perf_def ex_well_def ex_well3_def ex_perf_raw_def)
  note t2 = wells_without_perforations[OF h, where perf_kmb = "[ex_perf_raw_A]"
      and perf_tk = "[]" and fstr = ex_fstr and man_ops_csv = "[]" and start_date = "(2020, 1, 15)"
      and end_date = "(2020, 4, 20)" and s = no_output]
  note t1 = wells_without_perforations[OF h, where perf_kmb = "[ex_perf_raw]"
      and perf_tk = "[]" and fstr = ex_fstr and man_ops_csv = "[]" and start_date = "(2020, 1, 15)"
      and end_date = "(2020, 4, 20)" and s = no_output]
  have g2: "1 < length (wells_without_perf [ex_perf_raw_A] [] [ex_well, ex_well3] ''F'')"
    unfolding w2 by simp
  have g1: "length (wells_without_perf [ex_perf_raw] [] [ex_well, ex_well3] ''F'') \<le> 1"
    unfolding w1 by simp
  note a = t2[THEN conjunct1, THEN mp, OF g2]
  note b = t1[THEN conjunct2, THEN mp, OF g1, THEN conjunct2]
  have a': "main_sch ex_fstr [ex_prod_raw] [] [ex_perf_raw_A] [] [] [ex_well, ex_well3]
        (2020, 1, 15) (2020, 4, 20) ''F'' no_output
       = (Some (AssertionError [''W1'', ''W3'']), no_output)"
    unfolding a w2 by (simp add: ex_well_def ex_well3_def)
  from h w2 a' w1 b show ?thesis by (intro conjI)
qed

text \<open>
  The claim C6 as stated fails: two wells named by perforation rows and missing from the
  cross-reference table do not abort the run; the right join drops their rows.
\<close>

theorem unmatched_perforations_counterexample:
  "raw_perf_well ex_perf_raw_A \<notin> mer_name ` set [ex_well]
   \<and> raw_perf_well ex_perf_raw_B \<notin> mer_name ` set [ex_well]
   \<and> raw_perf_well ex_perf_raw_A \<noteq> raw_perf_well ex_perf_raw_B
   \<and> production_table [ex_prod_raw] [] [ex_well] ''F'' = Inr [(ex_prod_row, Some ex_well)]
   \<and> fst (main_sch ex_fstr [ex_prod_raw] [] [ex_perf_raw_A, ex_perf_raw_B, ex_perf_raw] [] []
            [ex_well] (2020, 1, 15) (2020, 4, 20) ''F'' no_output) = None
   \<and> perf_table [ex_perf_raw_A, ex_perf_raw_B, ex_perf_raw] [] [ex_well] ''F''
       = [(Some ex_perf_row, ex_well)]"
proof -
  have n: "raw_perf_well ex_perf_raw_A \<notin> mer_name ` set [ex_well]"
    "raw_perf_well ex_perf_raw_B \<notin> mer_name ` set [ex_well]"
    "raw_perf_well ex_perf_raw_A \<noteq> raw_perf_well ex_perf_raw_B"
    by (simp_all add: ex_perf_raw_A_def ex_perf_raw_B_def ex_well_def)
  have w: "length (wells_without_perf [ex_perf_raw_A, ex_perf_raw_B, ex_perf_raw] [] [ex_well]
      ''F'') \<le> 1"
    by (simp add: wells_without_perf_def ex_well_def ex_perf_raw_def)
  have p: "perf_table [ex_perf_raw_A, ex_perf_raw_B, ex_perf_raw] [] [ex_well] ''F''
       = [(Some ex_perf_row, ex_well)]"
    by (simp add: perf_table_def unique_def preprocess_perf_def merge_right_def
        ex_perf_raw_A_def ex_perf_raw_B_def ex_perf_raw_def ex_perf_row_def ex_well_def)
  note c = main_sch_cases[OF ex_production_table(1),
      where perf_kmb = "[ex_perf_raw_A, ex_perf_raw_B, ex_perf_raw]" and perf_tk = "[]"
      and fstr = ex_fstr and man_ops_csv = "[]" and start_date = "(2020, 1, 15)"
      and end_date = "(2020, 4, 20)" and s = no_output]
  note f = c[THEN conjunct2, THEN mp, OF w, THEN conjunct2]
  from n ex_production_table(1) f p show ?thesis by (intro conjI)
qed

end
